theory Spec2Isabelle
  imports Complex_Main
begin

section \<open>JavaScript values\<close>

text \<open>
  Position objects arrive as parsed JSON, so a numeric property is either a finite number
  or missing. A property is modelled as an option: \<open>None\<close> is JavaScript's
  \<open>undefined\<close>. Finite numbers are modelled as reals: rounding of IEEE doubles and the
  sign of zero are abstracted away, everything else (falsy zero, missing properties,
  division by zero) is written out.
\<close>

text \<open>\<open>x || d\<close> where \<open>d\<close> is a number: \<open>undefined\<close> and \<open>0\<close> are falsy.\<close>

definition orNum :: "real option \<Rightarrow> real \<Rightarrow> real" where
  "orNum x d = (case x of None \<Rightarrow> d | Some v \<Rightarrow> if v = 0 then d else v)"

text \<open>\<open>x || y\<close> where both are properties.\<close>

definition orProp :: "real option \<Rightarrow> real option \<Rightarrow> real option" where
  "orProp x y = (case x of None \<Rightarrow> y | Some v \<Rightarrow> if v = 0 then y else Some v)"

text \<open>\<open>s || t\<close> on a string property and a string: \<open>undefined\<close> and \<open>''''\<close> are falsy.\<close>

definition orStr :: "string option \<Rightarrow> string \<Rightarrow> string" where
  "orStr s t = (case s of None \<Rightarrow> t | Some v \<Rightarrow> if v = [] then t else v)"

text \<open>A property inside a template literal: \<open>`${undefined}`\<close> is the text \<open>undefined\<close>.\<close>

definition toStr :: "string option \<Rightarrow> string" where
  "toStr s = (case s of None \<Rightarrow> ''undefined'' | Some v \<Rightarrow> v)"

section \<open>Positions and activity records\<close>

text \<open>
  The position objects of the data API, with the properties that
  \<^verbatim>\<open>reconcilePositions.ts\<close> and \<^verbatim>\<open>app.js\<close> read.
\<close>

record position =
  conditionId :: string
  asset :: string
  title :: "string option"
  outcome :: "string option"
  outcomeIndex :: nat
  slug :: string
  icon :: string
  eventSlug :: string
  size_pos :: "real option"
  avgPrice :: "real option"
  curPrice :: "real option"
  currentValue :: "real option"
  cashPnl :: "real option"

datatype side = BUY | SELL

text \<open>\<^verbatim>\<open>UserActivityInterface\<close>, as the object literal of \<^verbatim>\<open>syntheticTrade\<close> fills it.\<close>

record activity =
  act_id :: nat
  act_proxyWallet :: string
  act_timestamp :: nat
  act_conditionId :: string
  act_type :: string
  act_size :: "real option"
  act_usdcSize :: real
  act_transactionHash :: string
  act_price :: real
  act_asset :: string
  act_side :: side
  act_outcomeIndex :: nat
  act_title :: "string option"
  act_slug :: string
  act_icon :: string
  act_eventSlug :: string
  act_outcome :: "string option"
  act_name :: string
  act_pseudonym :: string
  act_bio :: string
  act_profileImage :: string
  act_profileImageOptimized :: string
  act_bot :: bool
  act_botExcutedTime :: nat
  act_myBoughtSize :: "real option"

text \<open>
  \<^verbatim>\<open>reconcilePositions.ts\<close>, lines 67 to 93. The fresh object id, the wallet and
  \<^verbatim>\<open>Date.now()\<close> (in milliseconds) are arguments.
\<close>

definition syntheticTrade :: "nat \<Rightarrow> string \<Rightarrow> nat \<Rightarrow> position \<Rightarrow> activity" where
  "syntheticTrade oid wallet nowMs pos =
     \<lparr> act_id = oid,
       act_proxyWallet = wallet,
       act_timestamp = nowMs div 1000,
       act_conditionId = conditionId pos,
       act_type = ''TRADE'',
       act_size = size_pos pos,
       act_usdcSize = orNum (size_pos pos) 0 * orNum (orProp (curPrice pos) (avgPrice pos)) 0,
       act_transactionHash = '''',
       act_price = orNum (orProp (curPrice pos) (avgPrice pos)) 0.5,
       act_asset = asset pos,
       act_side = SELL,
       act_outcomeIndex = outcomeIndex pos,
       act_title = title pos,
       act_slug = slug pos,
       act_icon = icon pos,
       act_eventSlug = eventSlug pos,
       act_outcome = outcome pos,
       act_name = ''reconcile'',
       act_pseudonym = ''reconcile'',
       act_bio = '''',
       act_profileImage = '''',
       act_profileImageOptimized = '''',
       act_bot = False,
       act_botExcutedTime = 0,
       act_myBoughtSize = size_pos pos \<rparr>"

section \<open>Open positions and the stale set of the reconciliation script\<close>

text \<open>The filter \<^verbatim>\<open>(p.currentValue || 0) > 0.01\<close>, used by both programs.\<close>

definition isOpen :: "position \<Rightarrow> bool" where
  "isOpen p = (orNum (currentValue p) 0 > 0.01)"

text \<open>
  \<^verbatim>\<open>reconcilePositions.ts\<close>, lines 37 to 42: the \<^verbatim>\<open>Set\<close> of condition ids of the open
  positions of every tracked trader, one response per address.
\<close>

definition traderOpenConditions :: "position list list \<Rightarrow> string set" where
  "traderOpenConditions responses =
     fold (\<lambda>positions acc. fold (\<lambda>p acc'. insert (conditionId p) acc') (filter isOpen positions) acc)
       responses {}"

text \<open>Lines 46 and 47.\<close>

definition botOpen :: "position list \<Rightarrow> position list" where
  "botOpen botPositions = filter isOpen botPositions"

definition botOnly_reconcile :: "position list list \<Rightarrow> position list \<Rightarrow> position list" where
  "botOnly_reconcile responses botPositions =
     filter (\<lambda>p. conditionId p \<notin> traderOpenConditions responses) (botOpen botPositions)"

section \<open>The reconciliation driver\<close>

text \<open>
  The script talks to collaborators that are not part of it: the database connection, the
  trading client, the data API, the balance lookup, \<^verbatim>\<open>postOrder\<close> and the logger. Each
  call that can reject is a function on an abstract world \<open>'w\<close> that returns the new
  world with either a value or the thrown error's message. The driver records every call
  it makes as an event, in order.
\<close>

record env =
  USER_ADDRESSES :: "string list"
  PROXY_WALLET :: string

record 'w collab =
  connectDB :: "'w \<Rightarrow> string option \<times> 'w"
  createClobClient :: "'w \<Rightarrow> string option \<times> 'w"
  fetchData :: "string \<Rightarrow> 'w \<Rightarrow> (string + position list) \<times> 'w"
  getMyBalance :: "string \<Rightarrow> 'w \<Rightarrow> (string + real) \<times> 'w"
  postOrder :: "position \<Rightarrow> activity \<Rightarrow> real \<Rightarrow> 'w \<Rightarrow> string option \<times> 'w"
  closeConnection :: "'w \<Rightarrow> string option \<times> 'w"
  newObjectId :: "'w \<Rightarrow> nat \<times> 'w"
  dateNow :: "'w \<Rightarrow> nat \<times> 'w"

datatype event =
    EvConnectDB
  | EvCreateClobClient
  | EvFetchData string
  | EvLogSuccess
  | EvLogHeader
  | EvLogFound nat
  | EvGetBalance string
  | EvLogClosing string string "real option"
  | EvPostOrder position activity real "string option"
  | EvSleep nat
  | EvLogError string string
  | EvClose

definition DATA_API_BASE :: string where
  "DATA_API_BASE = ''https://data-api.polymarket.com''"

definition fetchPositions :: "'w collab \<Rightarrow> string \<Rightarrow> 'w \<Rightarrow> (string + position list) \<times> 'w" where
  "fetchPositions c address w = fetchData c (DATA_API_BASE @ ''/positions?user='' @ address) w"

text \<open>
  Lines 34 to 36: \<^verbatim>\<open>Promise.all\<close> over the tracked addresses. Every request is issued,
  in the order of the addresses; the result is the list of responses, or the first error
  in that order.
\<close>

fun fetchAll :: "'w collab \<Rightarrow> string list \<Rightarrow> 'w \<Rightarrow> (string + position list list) \<times> event list \<times> 'w" where
  "fetchAll c [] w = (Inr [], [], w)"
| "fetchAll c (addr # addrs) w =
     (case fetchPositions c addr w of (r, w1) \<Rightarrow>
        (case fetchAll c addrs w1 of (rs, tr, w2) \<Rightarrow>
           ((case r of
               Inl err \<Rightarrow> Inl err
             | Inr ps \<Rightarrow> (case rs of Inl err \<Rightarrow> Inl err | Inr pss \<Rightarrow> Inr (ps # pss))),
            EvFetchData (DATA_API_BASE @ ''/positions?user='' @ addr) # tr, w2)))"

text \<open>The label \<^verbatim>\<open>pos.title || pos.asset\<close> of the log lines.\<close>

definition label :: "position \<Rightarrow> string" where
  "label pos = orStr (title pos) (asset pos)"

text \<open>
  Lines 60 to 114: the loop over the stale positions. The last component of an
  \<open>EvPostOrder\<close> event is what the call did: \<open>None\<close> when it returned,
  \<open>Some msg\<close> when it threw.
\<close>

fun reconcileLoop :: "'w collab \<Rightarrow> env \<Rightarrow> real \<Rightarrow> position list \<Rightarrow> 'w \<Rightarrow> event list \<times> 'w" where
  "reconcileLoop c e my_balance [] w = ([], w)"
| "reconcileLoop c e my_balance (pos # rest) w =
     (case newObjectId c w of (oid, w1) \<Rightarrow>
      case dateNow c w1 of (nowMs, w2) \<Rightarrow>
      case postOrder c pos (syntheticTrade oid (PROXY_WALLET e) nowMs pos) my_balance w2 of (r, w3) \<Rightarrow>
      case reconcileLoop c e my_balance rest w3 of (tr, w4) \<Rightarrow>
        ([EvLogClosing (label pos) (conditionId pos) (size_pos pos),
          EvPostOrder pos (syntheticTrade oid (PROXY_WALLET e) nowMs pos) my_balance r]
         @ (case r of None \<Rightarrow> [EvSleep 250] | Some msg \<Rightarrow> [EvLogError (label pos) msg])
         @ tr, w4))"

text \<open>
  Lines 30 to 47: everything before the stale set is known. An error here rejects
  \<^verbatim>\<open>main\<close>.
\<close>

definition fetchStage :: "'w collab \<Rightarrow> env \<Rightarrow> 'w \<Rightarrow> (string + position list list \<times> position list) \<times> event list \<times> 'w" where
  "fetchStage c e w =
     (case connectDB c w of
        (Some err, w1) \<Rightarrow> (Inl err, [EvConnectDB], w1)
      | (None, w1) \<Rightarrow>
     (case createClobClient c w1 of
        (Some err, w2) \<Rightarrow> (Inl err, [EvConnectDB, EvCreateClobClient], w2)
      | (None, w2) \<Rightarrow>
     (case fetchAll c (USER_ADDRESSES e) w2 of
        (Inl err, tr, w3) \<Rightarrow> (Inl err, [EvConnectDB, EvCreateClobClient] @ tr, w3)
      | (Inr responses, tr, w3) \<Rightarrow>
     (case fetchPositions c (PROXY_WALLET e) w3 of
        (Inl err, w4) \<Rightarrow>
          (Inl err, [EvConnectDB, EvCreateClobClient] @ tr
                     @ [EvFetchData (DATA_API_BASE @ ''/positions?user='' @ PROXY_WALLET e)], w4)
      | (Inr botPositions, w4) \<Rightarrow>
          (Inr (responses, botPositions), [EvConnectDB, EvCreateClobClient] @ tr
                     @ [EvFetchData (DATA_API_BASE @ ''/positions?user='' @ PROXY_WALLET e)], w4)))))"

text \<open>Closing the connection ends both paths of \<^verbatim>\<open>main\<close> (lines 51 and 116).\<close>

definition closeAndReturn :: "'w collab \<Rightarrow> event list \<Rightarrow> 'w \<Rightarrow> (string + unit) \<times> event list \<times> 'w" where
  "closeAndReturn c tr w =
     (case closeConnection c w of
        (Some err, w1) \<Rightarrow> (Inl err, tr @ [EvClose], w1)
      | (None, w1) \<Rightarrow> (Inr (), tr @ [EvClose], w1))"

text \<open>
  \<^verbatim>\<open>main\<close>, lines 29 to 117. \<open>Inl err\<close> is the rejection that the last lines of the
  script turn into exit code 1.
\<close>

definition main :: "'w collab \<Rightarrow> env \<Rightarrow> 'w \<Rightarrow> (string + unit) \<times> event list \<times> 'w" where
  "main c e w =
     (case fetchStage c e w of
        (Inl err, tr, w1) \<Rightarrow> (Inl err, tr, w1)
      | (Inr (responses, botPositions), tr, w1) \<Rightarrow>
          (if length (botOnly_reconcile responses botPositions) = 0
           then closeAndReturn c (tr @ [EvLogSuccess]) w1
           else
             (case getMyBalance c (PROXY_WALLET e) w1 of
                (Inl err, w2) \<Rightarrow>
                  (Inl err,
                   tr @ [EvLogHeader, EvLogFound (length (botOnly_reconcile responses botPositions)),
                         EvGetBalance (PROXY_WALLET e)], w2)
              | (Inr my_balance, w2) \<Rightarrow>
                  (case reconcileLoop c e my_balance (botOnly_reconcile responses botPositions) w2 of
                     (tr', w3) \<Rightarrow>
                       closeAndReturn c
                         (tr @ [EvLogHeader, EvLogFound (length (botOnly_reconcile responses botPositions)),
                                EvGetBalance (PROXY_WALLET e)] @ tr') w3))))"

section \<open>The dashboard's position matcher\<close>

text \<open>
  \<^verbatim>\<open>renderPairedPositions\<close> of \<^verbatim>\<open>app.js\<close>, lines 152 to 191 and 236 to 238, without the
  HTML. A plain JavaScript object used as a dictionary is an association list with one entry
  per key, in the order in which the keys were first stored: that is the order of
  \<^verbatim>\<open>Object.keys\<close> for keys that are not array indices, and every key built by
  \<^verbatim>\<open>getKey\<close> contains the character \<open>|\<close>, so none is an array index and none is a
  property of \<^verbatim>\<open>Object.prototype\<close>.
\<close>

definition getKey :: "position \<Rightarrow> string" where
  "getKey p = toStr (title p) @ ''|'' @ toStr (outcome p)"

text \<open>\<^verbatim>\<open>obj[k] = v\<close>: a stored key keeps its place and takes the new value.\<close>

fun objSet :: "(string \<times> 'a) list \<Rightarrow> string \<Rightarrow> 'a \<Rightarrow> (string \<times> 'a) list" where
  "objSet [] k v = [(k, v)]"
| "objSet ((k', v') # kvs) k v =
     (if k' = k then (k, v) # kvs else (k', v') # objSet kvs k v)"

text \<open>\<^verbatim>\<open>obj[k]\<close>: \<open>None\<close> is \<^verbatim>\<open>undefined\<close>. A stored position object is always truthy.\<close>

definition objGet :: "(string \<times> 'a) list \<Rightarrow> string \<Rightarrow> 'a option" where
  "objGet obj k = map_of obj k"

definition objKeys :: "(string \<times> 'a) list \<Rightarrow> string list" where
  "objKeys obj = map fst obj"

text \<open>Lines 152 and 153.\<close>

definition traderPositions :: "position list \<Rightarrow> position list" where
  "traderPositions ts = filter isOpen ts"

definition botPositions :: "position list \<Rightarrow> position list" where
  "botPositions bs = filter isOpen bs"

text \<open>Lines 158 to 162: \<^verbatim>\<open>forEach(p => { byKey[getKey(p)] = p; })\<close> from the empty object.\<close>

definition byKey :: "position list \<Rightarrow> (string \<times> position) list" where
  "byKey ps = foldl (\<lambda>obj p. objSet obj (getKey p) p) [] ps"

definition traderByKey :: "position list \<Rightarrow> (string \<times> position) list" where
  "traderByKey ts = byKey (traderPositions ts)"

definition botByKey :: "position list \<Rightarrow> (string \<times> position) list" where
  "botByKey bs = byKey (botPositions bs)"

record matchedPair =
  pair_key :: string
  pair_trader :: position
  pair_bot :: position

text \<open>Lines 165 to 174.\<close>

definition matchedPairs :: "position list \<Rightarrow> position list \<Rightarrow> matchedPair list" where
  "matchedPairs ts bs =
     concat (map (\<lambda>k. case objGet (botByKey bs) k of
                         None \<Rightarrow> []
                       | Some b \<Rightarrow> (case objGet (traderByKey ts) k of
                                      None \<Rightarrow> []
                                    | Some t \<Rightarrow> [\<lparr> pair_key = k, pair_trader = t, pair_bot = b \<rparr>]))
                 (objKeys (traderByKey ts)))"

text \<open>Lines 177 and 178.\<close>

definition traderOnly :: "position list \<Rightarrow> position list \<Rightarrow> position list" where
  "traderOnly ts bs = filter (\<lambda>p. objGet (botByKey bs) (getKey p) = None) (traderPositions ts)"

definition botOnly :: "position list \<Rightarrow> position list \<Rightarrow> position list" where
  "botOnly ts bs = filter (\<lambda>p. objGet (traderByKey ts) (getKey p) = None) (botPositions bs)"

section \<open>Slippage statistics of the matched pairs\<close>

text \<open>
  The statistics divide by a trader's entry price, which may be zero or missing, so their
  values are JavaScript numbers with the three values that are not finite. Arithmetic on
  finite values is exact; the sign of a zero is abstracted to positive.
\<close>

datatype jsnum = Fin real | PosInf | NegInf | NaN

definition num :: "real option \<Rightarrow> jsnum" where
  "num x = (case x of None \<Rightarrow> NaN | Some v \<Rightarrow> Fin v)"

fun jsneg :: "jsnum \<Rightarrow> jsnum" where
  "jsneg (Fin a) = Fin (- a)"
| "jsneg PosInf = NegInf"
| "jsneg NegInf = PosInf"
| "jsneg NaN = NaN"

fun jsadd :: "jsnum \<Rightarrow> jsnum \<Rightarrow> jsnum" where
  "jsadd NaN y = NaN"
| "jsadd x NaN = NaN"
| "jsadd (Fin a) (Fin b) = Fin (a + b)"
| "jsadd (Fin a) y = y"
| "jsadd x (Fin b) = x"
| "jsadd PosInf PosInf = PosInf"
| "jsadd NegInf NegInf = NegInf"
| "jsadd PosInf NegInf = NaN"
| "jsadd NegInf PosInf = NaN"

definition jssub :: "jsnum \<Rightarrow> jsnum \<Rightarrow> jsnum" where
  "jssub x y = jsadd x (jsneg y)"

text \<open>The sign of a number that is not \<open>NaN\<close>: \<open>-1\<close>, \<open>0\<close> or \<open>1\<close>.\<close>

fun jssgn :: "jsnum \<Rightarrow> int" where
  "jssgn (Fin a) = (if a < 0 then - 1 else if a = 0 then 0 else 1)"
| "jssgn PosInf = 1"
| "jssgn NegInf = - 1"
| "jssgn NaN = 0"

definition infOfSign :: "int \<Rightarrow> jsnum" where
  "infOfSign s = (if s < 0 then NegInf else PosInf)"

fun jsmul :: "jsnum \<Rightarrow> jsnum \<Rightarrow> jsnum" where
  "jsmul NaN y = NaN"
| "jsmul x NaN = NaN"
| "jsmul (Fin a) (Fin b) = Fin (a * b)"
| "jsmul x y = (if jssgn x * jssgn y = 0 then NaN else infOfSign (jssgn x * jssgn y))"

fun jsdiv :: "jsnum \<Rightarrow> jsnum \<Rightarrow> jsnum" where
  "jsdiv NaN y = NaN"
| "jsdiv x NaN = NaN"
| "jsdiv (Fin a) (Fin b) =
     (if b = 0 then (if a = 0 then NaN else infOfSign (jssgn (Fin a))) else Fin (a / b))"
| "jsdiv (Fin a) y = Fin 0"
| "jsdiv x (Fin b) = infOfSign (if b = 0 then jssgn x else jssgn x * jssgn (Fin b))"
| "jsdiv x y = NaN"

text \<open>\<open>x > y\<close>: false as soon as one side is \<open>NaN\<close>.\<close>

fun jsgt :: "jsnum \<Rightarrow> jsnum \<Rightarrow> bool" where
  "jsgt NaN y = False"
| "jsgt x NaN = False"
| "jsgt (Fin a) (Fin b) = (a > b)"
| "jsgt PosInf y = (y \<noteq> PosInf)"
| "jsgt x NegInf = (x \<noteq> NegInf)"
| "jsgt x y = False"

text \<open>
  Lines 236 to 238, the figure shown in a pair's own table row:
  \<^verbatim>\<open>t.avgPrice > 0 ? ((b.avgPrice - t.avgPrice) / t.avgPrice * 100) : 0\<close>.
\<close>

definition slippagePct :: "matchedPair \<Rightarrow> jsnum" where
  "slippagePct pair =
     (if jsgt (num (avgPrice (pair_trader pair))) (Fin 0)
      then jsmul (jsdiv (jssub (num (avgPrice (pair_bot pair))) (num (avgPrice (pair_trader pair))))
                        (num (avgPrice (pair_trader pair))))
                 (Fin 100)
      else Fin 0)"

text \<open>
  Lines 181 to 191, the figure shown as "Avg Slippage": \<^verbatim>\<open>reduce\<close> from \<open>0\<close> over
  \<^verbatim>\<open>(pair.bot.avgPrice - pair.trader.avgPrice) / pair.trader.avgPrice * 100\<close>, divided by the
  number of pairs; \<open>0\<close> when there is no pair.
\<close>

definition avgSlippagePct :: "matchedPair list \<Rightarrow> jsnum" where
  "avgSlippagePct pairs =
     (if length pairs > 0
      then jsdiv (foldl (\<lambda>sum pair.
                     jsadd sum
                       (jsmul (jsdiv (jssub (num (avgPrice (pair_bot pair))) (num (avgPrice (pair_trader pair))))
                                     (num (avgPrice (pair_trader pair))))
                              (Fin 100)))
                   (Fin 0) pairs)
                 (Fin (real (length pairs)))
      else Fin 0)"

text \<open>The unweighted arithmetic mean of the figures of the rows.\<close>

definition meanSlippagePct :: "matchedPair list \<Rightarrow> jsnum" where
  "meanSlippagePct pairs =
     jsdiv (foldl jsadd (Fin 0) (map slippagePct pairs)) (Fin (real (length pairs)))"

section \<open>The slippage guard and the retry loop of an order attempt\<close>

text \<open>
  The guard lives in \<^verbatim>\<open>src/utils/postOrder.ts\<close> and takes its settings from
  \<^verbatim>\<open>src/config/env.ts\<close>; neither file is among the sources. What the sources say about it
  is the list of settings in \<^verbatim>\<open>Updates\<close>: \<^verbatim>\<open>MAX_SLIPPAGE_PCT\<close>, \<^verbatim>\<open>SLIPPAGE_WAIT_MS\<close>,
  \<^verbatim>\<open>SLIPPAGE_MAX_RETRIES\<close>, \<^verbatim>\<open>MIN_BOOK_SIZE_USD\<close> and \<^verbatim>\<open>SLIPPAGE_ACTION\<close>, which is
  \<^verbatim>\<open>wait\<close> (retry then skip) or \<^verbatim>\<open>skip\<close> (skip immediately). The definitions of this
  section follow sections 3, 4.2 and 4.3 of the specification.
\<close>

text \<open>
  Modelled from the spec: the \<open>action\<close> of the configuration, \<^verbatim>\<open>wait\<close> or \<^verbatim>\<open>skip\<close>; the
  declaration in \<^verbatim>\<open>src/config/env.ts\<close> is missing.
\<close>

datatype slippageAction = Wait | Skip

text \<open>
  Modelled from the spec: \<open>SlippageConfig\<close> of section 3; the declaration in
  \<^verbatim>\<open>src/config/env.ts\<close> is missing.
\<close>

record slippageConfig =
  maxSlippagePct :: real
  waitMs :: nat
  maxRetries :: nat
  minBookSizeUsd :: real
  action :: slippageAction

text \<open>
  Modelled from the spec: \<open>GuardDecision\<close> of section 3; \<^verbatim>\<open>src/utils/postOrder.ts\<close> is
  missing.
\<close>

datatype guardDecision = Proceed | RetryAfterWait | Abort string

text \<open>
  Modelled from the spec: the quote of section 4.2, best bid and ask and the USD notional
  available at each; \<^verbatim>\<open>src/utils/postOrder.ts\<close> is missing.
\<close>

record quote =
  bestBid :: real
  bestAsk :: real
  bidSizeUsd :: real
  askSizeUsd :: real

text \<open>
  Modelled from the spec: step 1 of section 4.2, best ask for a buy and best bid for a
  sell; \<^verbatim>\<open>src/utils/postOrder.ts\<close> is missing.
\<close>

definition livePrice :: "side \<Rightarrow> quote \<Rightarrow> real" where
  "livePrice sd q = (case sd of BUY \<Rightarrow> bestAsk q | SELL \<Rightarrow> bestBid q)"

text \<open>
  Modelled from the spec: step 2 of section 4.2, the drift in percent of the reference
  price, which is taken to be non-zero; \<^verbatim>\<open>src/utils/postOrder.ts\<close> is missing.
\<close>

definition drift :: "side \<Rightarrow> real \<Rightarrow> quote \<Rightarrow> real" where
  "drift sd referencePrice q = (livePrice sd q - referencePrice) / referencePrice * 100"

text \<open>
  Modelled from the spec: step 2 of section 4.2, the part of the drift in the adverse
  direction, a rise for a buy and a fall for a sell; \<^verbatim>\<open>src/utils/postOrder.ts\<close> is missing.
\<close>

definition adverseDrift :: "side \<Rightarrow> real \<Rightarrow> quote \<Rightarrow> real" where
  "adverseDrift sd referencePrice q =
     (case sd of BUY \<Rightarrow> max (drift sd referencePrice q) 0
               | SELL \<Rightarrow> min (drift sd referencePrice q) 0)"

text \<open>
  Modelled from the spec: step 3 of section 4.2; \<^verbatim>\<open>src/utils/postOrder.ts\<close> is missing.
\<close>

definition toleranceViolated :: "slippageConfig \<Rightarrow> side \<Rightarrow> real \<Rightarrow> quote \<Rightarrow> bool" where
  "toleranceViolated cfg sd referencePrice q =
     (\<bar>adverseDrift sd referencePrice q\<bar> > maxSlippagePct cfg)"

text \<open>
  Modelled from the spec: step 4 of section 4.2; \<^verbatim>\<open>src/utils/postOrder.ts\<close> is missing.
\<close>

definition depthViolated :: "slippageConfig \<Rightarrow> side \<Rightarrow> quote \<Rightarrow> bool" where
  "depthViolated cfg sd q =
     ((case sd of BUY \<Rightarrow> askSizeUsd q | SELL \<Rightarrow> bidSizeUsd q) < minBookSizeUsd cfg)"

text \<open>
  Modelled from the spec: the reason carried by \<open>Abort\<close> in step 6 of section 4.2, whose
  wording the specification leaves open; \<^verbatim>\<open>src/utils/postOrder.ts\<close> is missing.
\<close>

definition violationReason :: "slippageConfig \<Rightarrow> side \<Rightarrow> real \<Rightarrow> quote \<Rightarrow> string" where
  "violationReason cfg sd referencePrice q =
     (if toleranceViolated cfg sd referencePrice q
      then ''slippage tolerance exceeded'' else ''insufficient depth'')"

text \<open>
  Modelled from the spec: the guard of \<^verbatim>\<open>src/utils/postOrder.ts\<close>, which is missing, after
  steps 5 and 6 of section 4.2: proceed when nothing is violated; otherwise abort at once
  when the action is \<^verbatim>\<open>skip\<close>, and when the action is \<^verbatim>\<open>wait\<close> retry unless the attempt
  counter has reached \<open>maxRetries\<close>.
\<close>

definition slippageGuard :: "slippageConfig \<Rightarrow> side \<Rightarrow> real \<Rightarrow> quote \<Rightarrow> nat \<Rightarrow> guardDecision" where
  "slippageGuard cfg sd referencePrice q attempt =
     (if \<not> toleranceViolated cfg sd referencePrice q \<and> \<not> depthViolated cfg sd q then Proceed
      else if action cfg = Skip then Abort (violationReason cfg sd referencePrice q)
      else if attempt \<ge> maxRetries cfg then Abort ''max retries exhausted''
      else RetryAfterWait)"

text \<open>
  Modelled from the spec: the steps of the retry loop of section 4.3 as events, a fetched
  quote, a decision of the guard, a wait and a submission; \<^verbatim>\<open>src/utils/postOrder.ts\<close> is
  missing.
\<close>

datatype execEvent =
    XFetchQuote
  | XDecision guardDecision
  | XWait nat
  | XSubmit

text \<open>
  Modelled from the spec: the terminal states of section 4.3;
  \<^verbatim>\<open>src/utils/postOrder.ts\<close> is missing.
\<close>

datatype execOutcome = Succeeded | Failed string | Aborted string

text \<open>
  Modelled from the spec: the retry loop of \<^verbatim>\<open>src/utils/postOrder.ts\<close>, which is not among
  the sources, after section 4.3 of the specification. \<open>fetchQuote\<close> and \<open>submit\<close> are the
  quote source and the order-submission collaborator, on an abstract world; the loop
  records each step it takes.
\<close>

function executionRetryLoop ::
  "slippageConfig \<Rightarrow> side \<Rightarrow> real \<Rightarrow> ('w \<Rightarrow> quote \<times> 'w) \<Rightarrow> ('w \<Rightarrow> string option \<times> 'w)
     \<Rightarrow> nat \<Rightarrow> 'w \<Rightarrow> execOutcome \<times> execEvent list \<times> 'w" where
  "executionRetryLoop cfg sd referencePrice fetchQuote submit attempt w =
     (case fetchQuote w of (q, w1) \<Rightarrow>
        (case slippageGuard cfg sd referencePrice q attempt of
           Proceed \<Rightarrow>
             (case submit w1 of
                (None, w2) \<Rightarrow> (Succeeded, [XFetchQuote, XDecision Proceed, XSubmit], w2)
              | (Some err, w2) \<Rightarrow> (Failed err, [XFetchQuote, XDecision Proceed, XSubmit], w2))
         | RetryAfterWait \<Rightarrow>
             (case executionRetryLoop cfg sd referencePrice fetchQuote submit (Suc attempt) w1 of
                (res, tr, w2) \<Rightarrow>
                  (res, [XFetchQuote, XDecision RetryAfterWait, XWait (waitMs cfg)] @ tr, w2))
         | Abort reason \<Rightarrow> (Aborted reason, [XFetchQuote, XDecision (Abort reason)], w1)))"
  by pat_completeness auto
termination
proof (relation "measure (\<lambda>(cfg, sd, referencePrice, fetchQuote, submit, attempt, w). maxRetries cfg - attempt)")
  show "wf (measure (\<lambda>(cfg, sd, referencePrice, fetchQuote, submit, attempt, w). maxRetries cfg - attempt))"
    by simp
next
  fix cfg :: slippageConfig and sd referencePrice and fetchQuote :: "'w \<Rightarrow> quote \<times> 'w"
    and submit :: "'w \<Rightarrow> string option \<times> 'w" and attempt and w :: 'w and x q and w1 :: 'w
  assume "slippageGuard cfg sd referencePrice q attempt = RetryAfterWait"
  then have "attempt < maxRetries cfg"
    by (simp add: slippageGuard_def split: if_splits)
  then show "((cfg, sd, referencePrice, fetchQuote, submit, Suc attempt, w1),
              (cfg, sd, referencePrice, fetchQuote, submit, attempt, w))
             \<in> measure (\<lambda>(cfg, sd, referencePrice, fetchQuote, submit, attempt, w). maxRetries cfg - attempt)"
    by simp
qed

section \<open>Observations on the events of a run\<close>

text \<open>
  What a run did is read off its events: the orders it posted, with the position and the
  synthesized trade of each; the balance lookups it made; the calls to \<^verbatim>\<open>postOrder\<close> that
  threw, with the label of the position and the message; and the error lines it logged.
\<close>

fun postedOrders :: "event list \<Rightarrow> (position \<times> activity) list" where
  "postedOrders [] = []"
| "postedOrders (EvPostOrder p t b r # tr) = (p, t) # postedOrders tr"
| "postedOrders (ev # tr) = postedOrders tr"

fun balanceLookups :: "event list \<Rightarrow> nat" where
  "balanceLookups [] = 0"
| "balanceLookups (EvGetBalance a # tr) = Suc (balanceLookups tr)"
| "balanceLookups (ev # tr) = balanceLookups tr"

fun failedOrders :: "event list \<Rightarrow> (string \<times> string) list" where
  "failedOrders [] = []"
| "failedOrders (EvPostOrder p t b (Some msg) # tr) = (label p, msg) # failedOrders tr"
| "failedOrders (ev # tr) = failedOrders tr"

fun loggedErrors :: "event list \<Rightarrow> (string \<times> string) list" where
  "loggedErrors [] = []"
| "loggedErrors (EvLogError l msg # tr) = (l, msg) # loggedErrors tr"
| "loggedErrors (ev # tr) = loggedErrors tr"

text \<open>
  For every call to \<^verbatim>\<open>postOrder\<close>: the position, what the call did, and whether the very
  next event is the pause of 250 milliseconds.
\<close>

fun pauses :: "event list \<Rightarrow> (position \<times> string option \<times> bool) list" where
  "pauses [] = []"
| "pauses (EvPostOrder p t b r # tr) =
     (p, r, (case tr of EvSleep ms # tr' \<Rightarrow> ms = 250 | _ \<Rightarrow> False)) # pauses tr"
| "pauses (ev # tr) = pauses tr"

section \<open>A sample portfolio and sample collaborators\<close>

text \<open>
  One tracked trader, who holds the market \<open>0xA\<close>, and a bot wallet with five positions:
  \<open>0xA\<close> (also held by the trader), \<open>0xB\<close>, \<open>0xC\<close> (no price at all) and \<open>0xE\<close> (no
  current price), which the trader has left, and \<open>0xD\<close>, which is worth nothing. The world
  of the sample collaborators is a counter of the calls made so far; \<^verbatim>\<open>postOrder\<close> throws for
  the condition ids it is given.
\<close>

definition mkPos :: "string \<Rightarrow> string \<Rightarrow> real option \<Rightarrow> real option \<Rightarrow> real option \<Rightarrow> real option \<Rightarrow> position" where
  "mkPos cid ttl sz avg cur val =
     \<lparr> conditionId = cid, asset = ''token-'' @ cid, title = Some ttl, outcome = Some ''Yes'',
       outcomeIndex = 0, slug = [], icon = [], eventSlug = [],
       size_pos = sz, avgPrice = avg, curPrice = cur, currentValue = val, cashPnl = None \<rparr>"

definition exTraderA :: position where
  "exTraderA = mkPos ''0xA'' ''Rain'' (Some 100) (Some 0.40) (Some 0.45) (Some 45)"

definition exBotA :: position where
  "exBotA = mkPos ''0xA'' ''Rain'' (Some 10) (Some 0.42) (Some 0.45) (Some 4.5)"

definition exBotB :: position where
  "exBotB = mkPos ''0xB'' ''Snow'' (Some 10) (Some 0.30) (Some 0.37) (Some 3.7)"

definition exBotC :: position where
  "exBotC = mkPos ''0xC'' ''Wind'' (Some 4) None None (Some 2)"

definition exBotD :: position where
  "exBotD = mkPos ''0xD'' ''Hail'' (Some 50) (Some 0.2) (Some 0) (Some 0)"

definition exBotE :: position where
  "exBotE = mkPos ''0xE'' ''Fog'' (Some 8) (Some 0.6) None (Some 4)"

definition exEnv :: env where
  "exEnv = \<lparr> USER_ADDRESSES = [''0xtrader''], PROXY_WALLET = ''0xbot'' \<rparr>"

definition exCollab :: "position list \<Rightarrow> position list \<Rightarrow> string list \<Rightarrow> nat collab" where
  "exCollab tps bps failing =
     \<lparr> connectDB = (\<lambda>w. (None, w)),
       createClobClient = (\<lambda>w. (None, w)),
       fetchData = (\<lambda>url w. (Inr (if url = DATA_API_BASE @ ''/positions?user=0xbot'' then bps else tps), w + 1)),
       getMyBalance = (\<lambda>address w. (Inr 100, w + 1)),
       postOrder = (\<lambda>pos trade bal w.
          (if conditionId pos \<in> set failing then Some ''order rejected'' else None, w + 1)),
       closeConnection = (\<lambda>w. (None, w)),
       newObjectId = (\<lambda>w. (w, w + 1)),
       dateNow = (\<lambda>w. (1700000000000 + w, w + 1)) \<rparr>"

definition exBots :: "position list" where
  "exBots = [exBotA, exBotB, exBotC, exBotD, exBotE]"

definition exTrace :: "event list" where
  "exTrace =
     [EvConnectDB, EvCreateClobClient,
      EvFetchData ''https://data-api.polymarket.com/positions?user=0xtrader'',
      EvFetchData ''https://data-api.polymarket.com/positions?user=0xbot'',
      EvLogHeader, EvLogFound 3, EvGetBalance ''0xbot'',
      EvLogClosing ''Snow'' ''0xB'' (Some 10),
      EvPostOrder exBotB (syntheticTrade 103 ''0xbot'' 1700000000104 exBotB) 100 None,
      EvSleep 250,
      EvLogClosing ''Wind'' ''0xC'' (Some 4),
      EvPostOrder exBotC (syntheticTrade 106 ''0xbot'' 1700000000107 exBotC) 100 (Some ''order rejected''),
      EvLogError ''Wind'' ''order rejected'',
      EvLogClosing ''Fog'' ''0xE'' (Some 8),
      EvPostOrder exBotE (syntheticTrade 109 ''0xbot'' 1700000000110 exBotE) 100 None,
      EvSleep 250,
      EvClose]"

text \<open>
  A matched pair whose trader entry price is \<open>0\<close>, and a quote that has fallen ten percent
  below a reference price of \<open>0.5\<close>, for a configuration that skips at once.
\<close>

definition exTraderZ :: position where
  "exTraderZ = mkPos ''0xZ'' ''Gift'' (Some 5) (Some 0) (Some 0.5) (Some 2.5)"

definition exBotZ :: position where
  "exBotZ = mkPos ''0xZ'' ''Gift'' (Some 5) (Some 0.42) (Some 0.5) (Some 2.5)"

definition exSkipConfig :: slippageConfig where
  "exSkipConfig = \<lparr> maxSlippagePct = 1, waitMs = 30000, maxRetries = 20, minBookSizeUsd = 5, action = Skip \<rparr>"

definition exQuote :: quote where
  "exQuote = \<lparr> bestBid = 0.45, bestAsk = 0.47, bidSizeUsd = 120, askSizeUsd = 80 \<rparr>"

definition exFetchQuote :: "nat \<Rightarrow> quote \<times> nat" where
  "exFetchQuote w = (exQuote, w + 1)"

definition exSubmit :: "nat \<Rightarrow> string option \<times> nat" where
  "exSubmit w = (None, w + 1)"

text \<open>
  A second sample with two tracked traders: the first holds the market \<open>0xA\<close>, the second
  the market \<open>0xB\<close>. Each address has its own response, and no call throws.
\<close>

definition exTraderB :: position where
  "exTraderB = mkPos ''0xB'' ''Snow'' (Some 70) (Some 0.31) (Some 0.37) (Some 25.9)"

definition exEnv2 :: env where
  "exEnv2 = \<lparr> USER_ADDRESSES = [''0xtrader'', ''0xtrader2''], PROXY_WALLET = ''0xbot'' \<rparr>"

definition exCollab2 :: "position list \<Rightarrow> position list \<Rightarrow> position list \<Rightarrow> nat collab" where
  "exCollab2 tps1 tps2 bps =
     \<lparr> connectDB = (\<lambda>w. (None, w)),
       createClobClient = (\<lambda>w. (None, w)),
       fetchData = (\<lambda>url w.
          (Inr (if url = DATA_API_BASE @ ''/positions?user=0xbot'' then bps
                else if url = DATA_API_BASE @ ''/positions?user=0xtrader2'' then tps2
                else tps1), w + 1)),
       getMyBalance = (\<lambda>address w. (Inr 100, w + 1)),
       postOrder = (\<lambda>pos trade bal w. (None, w + 1)),
       closeConnection = (\<lambda>w. (None, w)),
       newObjectId = (\<lambda>w. (w, w + 1)),
       dateNow = (\<lambda>w. (1700000000000 + w, w + 1)) \<rparr>"

definition exTrace2 :: "event list" where
  "exTrace2 =
     [EvConnectDB, EvCreateClobClient,
      EvFetchData ''https://data-api.polymarket.com/positions?user=0xtrader'',
      EvFetchData ''https://data-api.polymarket.com/positions?user=0xtrader2'',
      EvFetchData ''https://data-api.polymarket.com/positions?user=0xbot'',
      EvLogHeader, EvLogFound 2, EvGetBalance ''0xbot'',
      EvLogClosing ''Wind'' ''0xC'' (Some 4),
      EvPostOrder exBotC (syntheticTrade 104 ''0xbot'' 1700000000105 exBotC) 100 None,
      EvSleep 250,
      EvLogClosing ''Fog'' ''0xE'' (Some 8),
      EvPostOrder exBotE (syntheticTrade 107 ''0xbot'' 1700000000108 exBotE) 100 None,
      EvSleep 250,
      EvClose]"

section \<open>Properties\<close>

text \<open>
  The lemmas and theorems below are about the definitions above.
\<close>

subsection \<open>The events of the loop and of the script\<close>

lemma postedOrders_append: "postedOrders (xs @ ys) = postedOrders xs @ postedOrders ys"
  by (induction xs rule: postedOrders.induct) simp_all

lemma balanceLookups_append: "balanceLookups (xs @ ys) = balanceLookups xs + balanceLookups ys"
  by (induction xs rule: balanceLookups.induct) simp_all

lemma failedOrders_append: "failedOrders (xs @ ys) = failedOrders xs @ failedOrders ys"
  by (induction xs rule: failedOrders.induct) simp_all

lemma loggedErrors_append: "loggedErrors (xs @ ys) = loggedErrors xs @ loggedErrors ys"
  by (induction xs rule: loggedErrors.induct) simp_all

lemma reconcileLoop_posted:
  "reconcileLoop c e bal ps w = (tr, w') \<Longrightarrow> map fst (postedOrders tr) = ps"
  by (induction ps arbitrary: w tr w') (auto split: prod.splits option.splits)

lemma reconcileLoop_trades:
  "reconcileLoop c e bal ps w = (tr, w') \<Longrightarrow> (p, t) \<in> set (postedOrders tr)
     \<Longrightarrow> \<exists>oid nowMs. t = syntheticTrade oid (PROXY_WALLET e) nowMs p"
proof (induction ps arbitrary: w tr w')
  case Nil
  then show ?case by simp
next
  case (Cons pos rest)
  obtain oid w1 where a: "newObjectId c w = (oid, w1)" by (cases "newObjectId c w")
  obtain nowMs w2 where b: "dateNow c w1 = (nowMs, w2)" by (cases "dateNow c w1")
  obtain r w3 where d: "postOrder c pos (syntheticTrade oid (PROXY_WALLET e) nowMs pos) bal w2 = (r, w3)"
    by (cases "postOrder c pos (syntheticTrade oid (PROXY_WALLET e) nowMs pos) bal w2")
  obtain tr' w4 where l: "reconcileLoop c e bal rest w3 = (tr', w4)"
    by (cases "reconcileLoop c e bal rest w3")
  from Cons.prems(2) Cons.prems(1) a b d l
  have "(p, t) = (pos, syntheticTrade oid (PROXY_WALLET e) nowMs pos) \<or> (p, t) \<in> set (postedOrders tr')"
    by (cases r) auto
  then show ?case
  proof
    assume "(p, t) = (pos, syntheticTrade oid (PROXY_WALLET e) nowMs pos)"
    then show ?thesis by blast
  next
    assume "(p, t) \<in> set (postedOrders tr')"
    with Cons.IH [OF l] show ?thesis .
  qed
qed

lemma reconcileLoop_balance:
  "reconcileLoop c e bal ps w = (tr, w') \<Longrightarrow> balanceLookups tr = 0"
  by (induction ps arbitrary: w tr w') (auto split: prod.splits option.splits)

lemma reconcileLoop_logged:
  "reconcileLoop c e bal ps w = (tr, w') \<Longrightarrow> loggedErrors tr = failedOrders tr"
  by (induction ps arbitrary: w tr w') (auto split: prod.splits option.splits)

lemma fetchAll_quiet:
  "fetchAll c addrs w = (r, tr, w') \<Longrightarrow>
     postedOrders tr = [] \<and> balanceLookups tr = 0 \<and> loggedErrors tr = [] \<and> failedOrders tr = []"
  by (induction addrs arbitrary: w r tr w') (auto split: prod.splits sum.splits)

lemma fetchStage_quiet:
  "fetchStage c e w = (r, tr, w') \<Longrightarrow>
     postedOrders tr = [] \<and> balanceLookups tr = 0 \<and> loggedErrors tr = [] \<and> failedOrders tr = []"
  by (auto simp: fetchStage_def postedOrders_append balanceLookups_append loggedErrors_append
        failedOrders_append split: prod.splits sum.splits option.splits dest: fetchAll_quiet)

lemma closeAndReturn_trace: "closeAndReturn c tr w = (res, tr', w') \<Longrightarrow> tr' = tr @ [EvClose]"
  by (auto simp: closeAndReturn_def split: prod.splits option.splits)

lemma closeAndReturn_result:
  "closeAndReturn c tr w = (res, tr', w') \<Longrightarrow>
     res = (case fst (closeConnection c w) of None \<Rightarrow> Inr () | Some err \<Rightarrow> Inl err)"
  by (auto simp: closeAndReturn_def split: prod.splits option.splits)

lemma main_cases:
  assumes "main c e w = (res, tr, w')"
  shows "(\<exists>err. fetchStage c e w = (Inl err, tr, w') \<and> res = Inl err)
       \<or> (\<exists>tps bps tr0 w1. fetchStage c e w = (Inr (tps, bps), tr0, w1)
             \<and> botOnly_reconcile tps bps = []
             \<and> closeAndReturn c (tr0 @ [EvLogSuccess]) w1 = (res, tr, w'))
       \<or> (\<exists>tps bps tr0 w1 err. fetchStage c e w = (Inr (tps, bps), tr0, w1)
             \<and> botOnly_reconcile tps bps \<noteq> []
             \<and> getMyBalance c (PROXY_WALLET e) w1 = (Inl err, w') \<and> res = Inl err
             \<and> tr = tr0 @ [EvLogHeader, EvLogFound (length (botOnly_reconcile tps bps)),
                            EvGetBalance (PROXY_WALLET e)])
       \<or> (\<exists>tps bps tr0 w1 bal w2 tr1 w3. fetchStage c e w = (Inr (tps, bps), tr0, w1)
             \<and> botOnly_reconcile tps bps \<noteq> []
             \<and> getMyBalance c (PROXY_WALLET e) w1 = (Inr bal, w2)
             \<and> reconcileLoop c e bal (botOnly_reconcile tps bps) w2 = (tr1, w3)
             \<and> closeAndReturn c (tr0 @ [EvLogHeader, EvLogFound (length (botOnly_reconcile tps bps)),
                                          EvGetBalance (PROXY_WALLET e)] @ tr1) w3 = (res, tr, w'))"
  using assms unfolding main_def
  by (auto split: prod.splits sum.splits if_splits)

lemma main_posted:
  assumes "main c e w = (res, tr, w')"
  shows "postedOrders tr = []
       \<or> (\<exists>tps bps tr0 w1 bal w2 tr1 w3. fetchStage c e w = (Inr (tps, bps), tr0, w1)
             \<and> getMyBalance c (PROXY_WALLET e) w1 = (Inr bal, w2)
             \<and> reconcileLoop c e bal (botOnly_reconcile tps bps) w2 = (tr1, w3)
             \<and> postedOrders tr = postedOrders tr1)"
  using main_cases [OF assms]
proof (elim disjE exE conjE)
  fix err assume "fetchStage c e w = (Inl err, tr, w')"
  from fetchStage_quiet [OF this] show ?thesis by simp
next
  fix tps bps tr0 w1
  assume f: "fetchStage c e w = (Inr (tps, bps), tr0, w1)"
    and cl: "closeAndReturn c (tr0 @ [EvLogSuccess]) w1 = (res, tr, w')"
  have "postedOrders tr = []"
    using fetchStage_quiet [OF f] closeAndReturn_trace [OF cl]
    by (simp add: postedOrders_append)
  then show ?thesis ..
next
  fix tps bps tr0 w1 err
  assume f: "fetchStage c e w = (Inr (tps, bps), tr0, w1)"
    and t: "tr = tr0 @ [EvLogHeader, EvLogFound (length (botOnly_reconcile tps bps)), EvGetBalance (PROXY_WALLET e)]"
  have "postedOrders tr = []"
    using fetchStage_quiet [OF f] t
    by (simp add: postedOrders_append)
  then show ?thesis ..
next
  fix tps bps tr0 w1 bal w2 tr1 w3
  assume f: "fetchStage c e w = (Inr (tps, bps), tr0, w1)"
    and b: "getMyBalance c (PROXY_WALLET e) w1 = (Inr bal, w2)"
    and l: "reconcileLoop c e bal (botOnly_reconcile tps bps) w2 = (tr1, w3)"
    and cl: "closeAndReturn c (tr0 @ [EvLogHeader, EvLogFound (length (botOnly_reconcile tps bps)),
                                          EvGetBalance (PROXY_WALLET e)] @ tr1) w3 = (res, tr, w')"
  have "postedOrders tr = postedOrders tr1"
    using fetchStage_quiet [OF f] closeAndReturn_trace [OF cl]
    by (simp add: postedOrders_append)
  with f b l show ?thesis by blast
qed

text \<open>
  Claim C1. Every order that the reconciliation script posts for a stale position carries
  a synthesized trade with side \<open>SELL\<close>, with the size of the position, and with the price
  equal to the current price of the position, or to its average entry price when the
  current price is missing or zero, or to \<open>0.5\<close> when both are missing or zero.
\<close>

theorem C1_exit_instruction:
  assumes "main c e w = (res, tr, w')" and "(p, t) \<in> set (postedOrders tr)"
  shows "act_side t = SELL \<and> act_size t = size_pos p \<and>
         act_price t =
           (if curPrice p \<noteq> None \<and> curPrice p \<noteq> Some 0 then the (curPrice p)
            else if avgPrice p \<noteq> None \<and> avgPrice p \<noteq> Some 0 then the (avgPrice p)
            else 0.5)"
proof -
  from main_posted [OF assms(1)] assms(2)
  obtain bal ps w2 tr1 w3 where l: "reconcileLoop c e bal ps w2 = (tr1, w3)"
    and m: "(p, t) \<in> set (postedOrders tr1)"
    by auto
  from reconcileLoop_trades [OF l m]
  obtain oid nowMs where "t = syntheticTrade oid (PROXY_WALLET e) nowMs p"
    by blast
  then show ?thesis
    by (auto simp: syntheticTrade_def orNum_def orProp_def split: option.splits)
qed

text \<open>
  Claim C10. In a synthesized trade \<^verbatim>\<open>usdcSize\<close> is the size (or \<open>0\<close> when it is missing)
  times the current price, falling back to the average entry price, falling back to
  \<open>0\<close>. So when both prices are missing or zero the trade has price \<open>0.5\<close> and
  \<^verbatim>\<open>usdcSize\<close> \<open>0\<close>, which differs from size times price as soon as the size is positive.
  For prices that are never negative, "both missing or zero" is the same as "no price is
  positive".
\<close>

theorem C10_usdcSize:
  "act_usdcSize (syntheticTrade oid wallet nowMs p) =
     (case size_pos p of None \<Rightarrow> 0 | Some s \<Rightarrow> s) *
     (if curPrice p \<noteq> None \<and> curPrice p \<noteq> Some 0 then the (curPrice p)
      else if avgPrice p \<noteq> None \<and> avgPrice p \<noteq> Some 0 then the (avgPrice p)
      else 0)
   \<and> ((curPrice p = None \<or> curPrice p = Some 0) \<and> (avgPrice p = None \<or> avgPrice p = Some 0) \<longrightarrow>
        act_price (syntheticTrade oid wallet nowMs p) = 0.5 \<and>
        act_usdcSize (syntheticTrade oid wallet nowMs p) = 0 \<and>
        (\<forall>s. size_pos p = Some s \<and> s > 0 \<longrightarrow>
           act_usdcSize (syntheticTrade oid wallet nowMs p)
             \<noteq> s * act_price (syntheticTrade oid wallet nowMs p)))
   \<and> ((\<forall>v. curPrice p = Some v \<longrightarrow> 0 \<le> v) \<and> (\<forall>v. avgPrice p = Some v \<longrightarrow> 0 \<le> v) \<longrightarrow>
        (((curPrice p = None \<or> curPrice p = Some 0) \<and> (avgPrice p = None \<or> avgPrice p = Some 0))
          \<longleftrightarrow> \<not> (\<exists>v. (curPrice p = Some v \<or> avgPrice p = Some v) \<and> v > 0)))"
  by (auto simp: syntheticTrade_def orNum_def orProp_def split: option.splits)

subsection \<open>The sample run\<close>

lemma ex_fetchStage:
  "fetchStage (exCollab tps bps failing) exEnv w =
     (Inr ([tps], bps),
      [EvConnectDB, EvCreateClobClient,
       EvFetchData ''https://data-api.polymarket.com/positions?user=0xtrader'',
       EvFetchData ''https://data-api.polymarket.com/positions?user=0xbot''], w + 2)"
  by (simp add: fetchStage_def fetchPositions_def exCollab_def exEnv_def DATA_API_BASE_def)

lemma ex_isOpen:
  "isOpen exTraderA" "isOpen exBotA" "isOpen exBotB" "isOpen exBotC" "\<not> isOpen exBotD" "isOpen exBotE"
  by (simp_all add: isOpen_def orNum_def mkPos_def exTraderA_def exBotA_def exBotB_def exBotC_def
        exBotD_def exBotE_def)

lemma ex_conditionId:
  "conditionId exTraderA = ''0xA''" "conditionId exBotA = ''0xA''" "conditionId exBotB = ''0xB''"
  "conditionId exBotC = ''0xC''" "conditionId exBotD = ''0xD''" "conditionId exBotE = ''0xE''"
  by (simp_all add: mkPos_def exTraderA_def exBotA_def exBotB_def exBotC_def exBotD_def exBotE_def)

lemma ex_botOnly: "botOnly_reconcile [[exTraderA]] exBots = [exBotB, exBotC, exBotE]"
  by (simp add: botOnly_reconcile_def botOpen_def traderOpenConditions_def exBots_def
        ex_isOpen ex_conditionId)

lemma ex_label: "label exBotB = ''Snow''" "label exBotC = ''Wind''" "label exBotE = ''Fog''"
  by (simp_all add: label_def orStr_def mkPos_def exBotB_def exBotC_def exBotE_def)

lemma ex_size: "size_pos exBotB = Some 10" "size_pos exBotC = Some 4" "size_pos exBotE = Some 8"
  by (simp_all add: mkPos_def exBotB_def exBotC_def exBotE_def)

lemma ex_collab:
  "connectDB (exCollab tps bps failing) w = (None, w)"
  "createClobClient (exCollab tps bps failing) w = (None, w)"
  "getMyBalance (exCollab tps bps failing) address w = (Inr 100, w + 1)"
  "postOrder (exCollab tps bps failing) pos trade bal w =
     (if conditionId pos \<in> set failing then Some ''order rejected'' else None, w + 1)"
  "closeConnection (exCollab tps bps failing) w = (None, w)"
  "newObjectId (exCollab tps bps failing) w = (w, w + 1)"
  "dateNow (exCollab tps bps failing) w = (1700000000000 + w, w + 1)"
  by (simp_all add: exCollab_def)

lemma ex_env: "PROXY_WALLET exEnv = ''0xbot''" "USER_ADDRESSES exEnv = [''0xtrader'']"
  by (simp_all add: exEnv_def)

lemma ex_main: "main (exCollab [exTraderA] exBots [''0xC'']) exEnv 100 = (Inr (), exTrace, 112)"
  by (simp add: main_def ex_fetchStage ex_botOnly ex_label ex_size ex_conditionId closeAndReturn_def
        exTrace_def ex_collab ex_env)

text \<open>
  In the sample run the order for \<open>0xC\<close>, which has no price, is a sell of its full size at
  \<open>0.5\<close>.
\<close>

theorem C1_exit_instruction_witness:
  "main (exCollab [exTraderA] exBots [''0xC'']) exEnv 100 = (Inr (), exTrace, 112)
   \<and> (exBotC, syntheticTrade 106 ''0xbot'' 1700000000107 exBotC) \<in> set (postedOrders exTrace)
   \<and> act_side (syntheticTrade 106 ''0xbot'' 1700000000107 exBotC) = SELL
   \<and> act_size (syntheticTrade 106 ''0xbot'' 1700000000107 exBotC) = Some 4
   \<and> act_price (syntheticTrade 106 ''0xbot'' 1700000000107 exBotC) = 0.5"
proof -
  have m: "main (exCollab [exTraderA] exBots [''0xC'']) exEnv 100 = (Inr (), exTrace, 112)"
    by (rule ex_main)
  have i: "(exBotC, syntheticTrade 106 ''0xbot'' 1700000000107 exBotC) \<in> set (postedOrders exTrace)"
    by (simp add: exTrace_def)
  from C1_exit_instruction [OF m i] m i show ?thesis
    by (simp add: exBotC_def mkPos_def)
qed

text \<open>
  The trade synthesized for \<open>0xC\<close> has price \<open>0.5\<close> and \<^verbatim>\<open>usdcSize\<close> \<open>0\<close>, not
  \<open>4 * 0.5\<close>.
\<close>

theorem C10_usdcSize_witness:
  "curPrice exBotC = None \<and> avgPrice exBotC = None \<and> size_pos exBotC = Some 4
   \<and> act_price (syntheticTrade 106 ''0xbot'' 1700000000107 exBotC) = 0.5
   \<and> act_usdcSize (syntheticTrade 106 ''0xbot'' 1700000000107 exBotC) = 0
   \<and> act_usdcSize (syntheticTrade 106 ''0xbot'' 1700000000107 exBotC)
        \<noteq> 4 * act_price (syntheticTrade 106 ''0xbot'' 1700000000107 exBotC)"
proof -
  have h: "curPrice exBotC = None" "avgPrice exBotC = None" "size_pos exBotC = Some 4"
    by (simp_all add: exBotC_def mkPos_def)
  from C10_usdcSize [of 106 "''0xbot''" 1700000000107 exBotC] h show ?thesis
    by simp
qed

text \<open>
  Claim C3. When the stale set computed from the fetched positions is empty, the script
  logs success, closes the connection and returns (it rejects only if closing the
  connection does); it looks up no balance and posts no order.
\<close>

theorem C3_nothing_stale:
  assumes "fetchStage c e w = (Inr (tps, bps), tr0, w1)" and "botOnly_reconcile tps bps = []"
  shows "main c e w =
           (case closeConnection c w1 of
              (r, w2) \<Rightarrow> ((case r of None \<Rightarrow> Inr () | Some err \<Rightarrow> Inl err),
                           tr0 @ [EvLogSuccess, EvClose], w2))
         \<and> balanceLookups (fst (snd (main c e w))) = 0
         \<and> postedOrders (fst (snd (main c e w))) = []"
proof -
  have m: "main c e w =
           (case closeConnection c w1 of
              (r, w2) \<Rightarrow> ((case r of None \<Rightarrow> Inr () | Some err \<Rightarrow> Inl err),
                           tr0 @ [EvLogSuccess, EvClose], w2))"
    using assms by (simp add: main_def closeAndReturn_def split: prod.splits option.splits)
  have q: "balanceLookups tr0 = 0" "postedOrders tr0 = []"
    using fetchStage_quiet [OF assms(1)] by simp_all
  have "balanceLookups (fst (snd (main c e w))) = 0"
    unfolding m using q by (simp add: balanceLookups_append split: prod.splits)
  moreover have "postedOrders (fst (snd (main c e w))) = []"
    unfolding m using q by (simp add: postedOrders_append split: prod.splits)
  ultimately show ?thesis using m by simp
qed

lemma ex_botOnly_empty: "botOnly_reconcile [[exTraderA]] [exBotA, exBotD] = []"
  by (simp add: botOnly_reconcile_def botOpen_def traderOpenConditions_def ex_isOpen ex_conditionId)

text \<open>
  A bot that holds only the trader's market and a worthless position: six events, no
  balance lookup, no order.
\<close>

theorem C3_nothing_stale_witness:
  "fetchStage (exCollab [exTraderA] [exBotA, exBotD] []) exEnv 100 =
     (Inr ([[exTraderA]], [exBotA, exBotD]),
      [EvConnectDB, EvCreateClobClient,
       EvFetchData ''https://data-api.polymarket.com/positions?user=0xtrader'',
       EvFetchData ''https://data-api.polymarket.com/positions?user=0xbot''], 102)
   \<and> botOnly_reconcile [[exTraderA]] [exBotA, exBotD] = []
   \<and> main (exCollab [exTraderA] [exBotA, exBotD] []) exEnv 100 =
       (Inr (),
        [EvConnectDB, EvCreateClobClient,
         EvFetchData ''https://data-api.polymarket.com/positions?user=0xtrader'',
         EvFetchData ''https://data-api.polymarket.com/positions?user=0xbot'',
         EvLogSuccess, EvClose], 102)
   \<and> balanceLookups (fst (snd (main (exCollab [exTraderA] [exBotA, exBotD] []) exEnv 100))) = 0
   \<and> postedOrders (fst (snd (main (exCollab [exTraderA] [exBotA, exBotD] []) exEnv 100))) = []"
proof -
  have f: "fetchStage (exCollab [exTraderA] [exBotA, exBotD] []) exEnv 100 =
     (Inr ([[exTraderA]], [exBotA, exBotD]),
      [EvConnectDB, EvCreateClobClient,
       EvFetchData ''https://data-api.polymarket.com/positions?user=0xtrader'',
       EvFetchData ''https://data-api.polymarket.com/positions?user=0xbot''], 102)"
    by (simp add: ex_fetchStage)
  from C3_nothing_stale [OF f ex_botOnly_empty] f ex_botOnly_empty show ?thesis
    by (simp add: ex_collab)
qed

text \<open>
  Claim C2. Once the positions and the balance have been fetched, whatever the calls to
  \<^verbatim>\<open>postOrder\<close> do: an order is posted for every stale position, once and in order, so a
  call that throws does not keep the later positions from being attempted; every call that
  throws is logged with the label of its position and its message; and the script returns
  normally unless closing the connection fails, so no failed task makes it reject.
\<close>

theorem C2_failures_do_not_stop:
  assumes "fetchStage c e w = (Inr (tps, bps), tr0, w1)"
    and "getMyBalance c (PROXY_WALLET e) w1 = (Inr bal, w2)"
    and "main c e w = (res, tr, w')"
  shows "map fst (postedOrders tr) = botOnly_reconcile tps bps
         \<and> loggedErrors tr = failedOrders tr
         \<and> (res = Inr () \<or> (\<exists>w3 err. closeConnection c w3 = (Some err, w') \<and> res = Inl err))"
  using main_cases [OF assms(3)]
proof (elim disjE exE conjE)
  fix err assume "fetchStage c e w = (Inl err, tr, w')"
  with assms(1) show ?thesis by simp
next
  fix tps' bps' tr0' w1'
  assume f: "fetchStage c e w = (Inr (tps', bps'), tr0', w1')"
    and emp: "botOnly_reconcile tps' bps' = []"
    and cl: "closeAndReturn c (tr0' @ [EvLogSuccess]) w1' = (res, tr, w')"
  from f assms(1) have eq: "tps' = tps" "bps' = bps" "tr0' = tr0" by simp_all
  have "map fst (postedOrders tr) = botOnly_reconcile tps bps"
    using fetchStage_quiet [OF f] closeAndReturn_trace [OF cl] emp eq
    by (simp add: postedOrders_append)
  moreover have "loggedErrors tr = failedOrders tr"
    using fetchStage_quiet [OF f] closeAndReturn_trace [OF cl]
    by (simp add: loggedErrors_append failedOrders_append)
  moreover have "res = Inr () \<or> (\<exists>w3 err. closeConnection c w3 = (Some err, w') \<and> res = Inl err)"
    using cl by (auto simp: closeAndReturn_def split: prod.splits option.splits)
  ultimately show ?thesis by simp
next
  fix tps' bps' tr0' w1' err
  assume "fetchStage c e w = (Inr (tps', bps'), tr0', w1')"
    and "getMyBalance c (PROXY_WALLET e) w1' = (Inl err, w')"
  with assms(1,2) show ?thesis by simp
next
  fix tps' bps' tr0' w1' bal' w2' tr1 w3
  assume f: "fetchStage c e w = (Inr (tps', bps'), tr0', w1')"
    and l: "reconcileLoop c e bal' (botOnly_reconcile tps' bps') w2' = (tr1, w3)"
    and cl: "closeAndReturn c (tr0' @ [EvLogHeader, EvLogFound (length (botOnly_reconcile tps' bps')),
                                          EvGetBalance (PROXY_WALLET e)] @ tr1) w3 = (res, tr, w')"
  from f assms(1) have eq: "tps' = tps" "bps' = bps" "tr0' = tr0" by simp_all
  have "map fst (postedOrders tr) = botOnly_reconcile tps bps"
    using fetchStage_quiet [OF f] closeAndReturn_trace [OF cl] reconcileLoop_posted [OF l] eq
    by (simp add: postedOrders_append)
  moreover have "loggedErrors tr = failedOrders tr"
    using fetchStage_quiet [OF f] closeAndReturn_trace [OF cl] reconcileLoop_logged [OF l]
    by (simp add: loggedErrors_append failedOrders_append)
  moreover have "res = Inr () \<or> (\<exists>w3 err. closeConnection c w3 = (Some err, w') \<and> res = Inl err)"
    using cl by (auto simp: closeAndReturn_def split: prod.splits option.splits)
  ultimately show ?thesis by simp
qed

text \<open>
  In the sample run the second of three tasks throws; it is logged, and the third is still
  posted.
\<close>

theorem C2_failures_do_not_stop_witness:
  "fetchStage (exCollab [exTraderA] exBots [''0xC'']) exEnv 100 =
     (Inr ([[exTraderA]], exBots),
      [EvConnectDB, EvCreateClobClient,
       EvFetchData ''https://data-api.polymarket.com/positions?user=0xtrader'',
       EvFetchData ''https://data-api.polymarket.com/positions?user=0xbot''], 102)
   \<and> getMyBalance (exCollab [exTraderA] exBots [''0xC'']) (PROXY_WALLET exEnv) 102 = (Inr 100, 103)
   \<and> main (exCollab [exTraderA] exBots [''0xC'']) exEnv 100 = (Inr (), exTrace, 112)
   \<and> failedOrders exTrace = [(''Wind'', ''order rejected'')]
   \<and> loggedErrors exTrace = [(''Wind'', ''order rejected'')]
   \<and> map fst (postedOrders exTrace) = [exBotB, exBotC, exBotE]"
proof -
  have f: "fetchStage (exCollab [exTraderA] exBots [''0xC'']) exEnv 100 =
     (Inr ([[exTraderA]], exBots),
      [EvConnectDB, EvCreateClobClient,
       EvFetchData ''https://data-api.polymarket.com/positions?user=0xtrader'',
       EvFetchData ''https://data-api.polymarket.com/positions?user=0xbot''], 102)"
    by (simp add: ex_fetchStage)
  have b: "getMyBalance (exCollab [exTraderA] exBots [''0xC'']) (PROXY_WALLET exEnv) 102 = (Inr 100, 103)"
    by (simp add: ex_collab)
  have fl: "failedOrders exTrace = [(''Wind'', ''order rejected'')]"
    by (simp add: exTrace_def ex_label)
  from C2_failures_do_not_stop [OF f b ex_main] f b ex_main fl show ?thesis
    by (simp add: ex_botOnly)
qed

lemma pauses_quiet_prefix: "postedOrders xs = [] \<Longrightarrow> pauses (xs @ ys) = pauses ys"
  by (induction xs rule: postedOrders.induct) simp_all

lemma reconcileLoop_pauses_append:
  "reconcileLoop c e bal ps w = (tr, w') \<Longrightarrow> pauses (tr @ ys) = pauses tr @ pauses ys"
  by (induction ps arbitrary: w tr w') (auto split: prod.splits option.splits)

lemma reconcileLoop_pauses:
  "reconcileLoop c e bal ps w = (tr, w') \<Longrightarrow> (p, r, paused) \<in> set (pauses tr)
     \<Longrightarrow> paused \<longleftrightarrow> r = None"
  by (induction ps arbitrary: w tr w') (auto split: prod.splits option.splits)

lemma main_pauses:
  assumes "main c e w = (res, tr, w')"
  shows "pauses tr = []
       \<or> (\<exists>bal ps w2 tr1 w3. reconcileLoop c e bal ps w2 = (tr1, w3) \<and> pauses tr = pauses tr1)"
  using main_cases [OF assms]
proof (elim disjE exE conjE)
  fix err assume "fetchStage c e w = (Inl err, tr, w')"
  from fetchStage_quiet [OF this] pauses_quiet_prefix [of tr "[]"] show ?thesis by simp
next
  fix tps bps tr0 w1
  assume f: "fetchStage c e w = (Inr (tps, bps), tr0, w1)"
    and cl: "closeAndReturn c (tr0 @ [EvLogSuccess]) w1 = (res, tr, w')"
  have "pauses tr = []"
    using fetchStage_quiet [OF f] closeAndReturn_trace [OF cl]
    by (simp add: pauses_quiet_prefix)
  then show ?thesis ..
next
  fix tps bps tr0 w1 err
  assume f: "fetchStage c e w = (Inr (tps, bps), tr0, w1)"
    and t: "tr = tr0 @ [EvLogHeader, EvLogFound (length (botOnly_reconcile tps bps)), EvGetBalance (PROXY_WALLET e)]"
  have "pauses tr = []"
    using fetchStage_quiet [OF f] t
    by (simp add: pauses_quiet_prefix)
  then show ?thesis ..
next
  fix tps bps tr0 w1 bal w2 tr1 w3
  assume f: "fetchStage c e w = (Inr (tps, bps), tr0, w1)"
    and l: "reconcileLoop c e bal (botOnly_reconcile tps bps) w2 = (tr1, w3)"
    and cl: "closeAndReturn c (tr0 @ [EvLogHeader, EvLogFound (length (botOnly_reconcile tps bps)),
                                          EvGetBalance (PROXY_WALLET e)] @ tr1) w3 = (res, tr, w')"
  have "tr = tr0 @ ([EvLogHeader, EvLogFound (length (botOnly_reconcile tps bps)),
                     EvGetBalance (PROXY_WALLET e)] @ (tr1 @ [EvClose]))"
    using closeAndReturn_trace [OF cl] by simp
  then have "pauses tr = pauses (tr1 @ [EvClose])"
    using fetchStage_quiet [OF f] by (simp add: pauses_quiet_prefix)
  then have "pauses tr = pauses tr1"
    using reconcileLoop_pauses_append [OF l, of "[EvClose]"] by simp
  with l show ?thesis by blast
qed

text \<open>
  On the path where \<^verbatim>\<open>postOrder\<close> returns, the pause of 250 milliseconds follows the task.
\<close>

lemma pause_after_returned_call:
  assumes "main c e w = (res, tr, w')" and "(p, None, paused) \<in> set (pauses tr)"
  shows "paused"
proof -
  from main_pauses [OF assms(1)] assms(2)
  obtain bal ps w2 tr1 w3 where l: "reconcileLoop c e bal ps w2 = (tr1, w3)"
    and m: "(p, None, paused) \<in> set (pauses tr1)"
    by auto
  from reconcileLoop_pauses [OF l m] show ?thesis by simp
qed

text \<open>
  Claim C8 says that a pause of 250 milliseconds follows every processed task, whether its
  order submission succeeded or failed. The pause, commented "small pause to avoid
  hammering", is awaited inside the \<^verbatim>\<open>try\<close> block after \<^verbatim>\<open>postOrder\<close>, so the path on
  which the call throws misses it: in the sample run, three stale positions of which the
  second throws, the tasks for \<open>0xB\<close> and \<open>0xE\<close> are followed by the pause and the task for
  \<open>0xC\<close> is followed by the error line and by no pause.
\<close>

theorem C8_no_pause_after_throw:
  "main (exCollab [exTraderA] exBots [''0xC'']) exEnv 100 = (Inr (), exTrace, 112)
   \<and> pauses exTrace =
       [(exBotB, None, True), (exBotC, Some ''order rejected'', False), (exBotE, None, True)]"
  by (simp add: ex_main) (simp add: exTrace_def)

subsection \<open>The stale set\<close>

lemma fold_insert_conditionId:
  "fold (\<lambda>p acc'. insert (conditionId p) acc') xs A = A \<union> conditionId ` set xs"
  by (induction xs arbitrary: A) auto

lemma fold_responses:
  "fold (\<lambda>positions acc. fold (\<lambda>p acc'. insert (conditionId p) acc') (filter isOpen positions) acc)
      responses A
   = A \<union> {conditionId q |q ps. ps \<in> set responses \<and> q \<in> set ps \<and> isOpen q}"
  by (induction responses arbitrary: A) (auto simp: fold_insert_conditionId)

lemma traderOpenConditions_eq:
  "traderOpenConditions responses =
     {conditionId q |q ps. ps \<in> set responses \<and> q \<in> set ps \<and> isOpen q}"
  by (simp add: traderOpenConditions_def fold_responses)

lemma main_posted_stale:
  assumes "main c e w = (res, tr, w')" and "(p, t) \<in> set (postedOrders tr)"
  shows "\<exists>tps bps tr0 w1. fetchStage c e w = (Inr (tps, bps), tr0, w1)
            \<and> p \<in> set (botOnly_reconcile tps bps)"
proof -
  from main_posted [OF assms(1)] assms(2)
  obtain tps bps tr0 w1 bal w2 tr1 w3 where f: "fetchStage c e w = (Inr (tps, bps), tr0, w1)"
    and l: "reconcileLoop c e bal (botOnly_reconcile tps bps) w2 = (tr1, w3)"
    and m: "(p, t) \<in> set (postedOrders tr1)"
    by auto
  from m have "p \<in> set (map fst (postedOrders tr1))" by force
  with reconcileLoop_posted [OF l] have "p \<in> set (botOnly_reconcile tps bps)" by simp
  with f show ?thesis by blast
qed

text \<open>
  The responses are tied to the configuration: the script fetches every tracked address
  once, in the order of \<^verbatim>\<open>USER_ADDRESSES\<close>, each request on the world left by the one
  before, and the list of responses holds the response of each address at its place.
\<close>

lemma fetchAll_link:
  "fetchAll c addrs w = (Inr tps, tr, w') \<Longrightarrow>
     \<exists>ws. length ws = Suc (length addrs) \<and> ws ! 0 = w \<and> last ws = w'
          \<and> length tps = length addrs
          \<and> (\<forall>i < length addrs. fetchPositions c (addrs ! i) (ws ! i) = (Inr (tps ! i), ws ! Suc i))"
proof (induction addrs arbitrary: w tps tr w')
  case Nil
  then have "w' = w" "tps = []" by simp_all
  then have "length [w] = Suc (length ([] :: string list)) \<and> [w] ! 0 = w \<and> last [w] = w'
          \<and> length tps = length ([] :: string list)
          \<and> (\<forall>i < length ([] :: string list).
                fetchPositions c (([] :: string list) ! i) ([w] ! i) = (Inr (tps ! i), [w] ! Suc i))"
    by simp
  then show ?case by blast
next
  case (Cons addr addrs)
  obtain r w1 where a: "fetchPositions c addr w = (r, w1)" by (cases "fetchPositions c addr w")
  obtain rs tr1 w2 where b: "fetchAll c addrs w1 = (rs, tr1, w2)" by (cases "fetchAll c addrs w1") auto
  from Cons.prems a b obtain ps pss where r: "r = Inr ps" and rs: "rs = Inr pss"
    and t: "tps = ps # pss" and w: "w' = w2"
    by (auto split: sum.splits)
  from Cons.IH [OF b [unfolded rs]] obtain ws where l: "length ws = Suc (length addrs)"
    and h: "ws ! 0 = w1" and e: "last ws = w2" and n: "length pss = length addrs"
    and f: "\<forall>i < length addrs. fetchPositions c (addrs ! i) (ws ! i) = (Inr (pss ! i), ws ! Suc i)"
    by blast
  from l have ne: "ws \<noteq> []" by auto
  have step: "\<forall>i < length (addr # addrs).
      fetchPositions c ((addr # addrs) ! i) ((w # ws) ! i) = (Inr (tps ! i), (w # ws) ! Suc i)"
  proof (intro allI impI)
    fix i assume "i < length (addr # addrs)"
    then show "fetchPositions c ((addr # addrs) ! i) ((w # ws) ! i) = (Inr (tps ! i), (w # ws) ! Suc i)"
      using a r h f t by (cases i) simp_all
  qed
  have "length (w # ws) = Suc (length (addr # addrs)) \<and> (w # ws) ! 0 = w \<and> last (w # ws) = w'
        \<and> length tps = length (addr # addrs)"
    using l e w ne n t by simp
  with step show ?case by blast
qed

lemma fetchStage_link:
  "fetchStage c e w = (Inr (tps, bps), tr0, w1) \<Longrightarrow>
     \<exists>wa wb w3 tr. connectDB c w = (None, wa) \<and> createClobClient c wa = (None, wb)
        \<and> fetchAll c (USER_ADDRESSES e) wb = (Inr tps, tr, w3)
        \<and> fetchPositions c (PROXY_WALLET e) w3 = (Inr bps, w1)"
  by (auto simp: fetchStage_def split: prod.splits option.splits sum.splits)

text \<open>
  Claim C9. A position for which the script posts an order is an open position of the
  bot, in the response fetched for \<^verbatim>\<open>PROXY_WALLET\<close>, whose condition id is the condition id
  of no open position in any trader response; and the trader responses are, one for one
  and in order, the responses fetched for the addresses of \<^verbatim>\<open>USER_ADDRESSES\<close>, all of
  them. So a position whose condition some tracked trader holds open is never exited.
\<close>

theorem C9_held_conditions_never_exited:
  assumes "fetchStage c e w = (Inr (tps, bps), tr0, w1)" and "main c e w = (res, tr, w')"
    and "(p, t) \<in> set (postedOrders tr)"
  shows "p \<in> set bps \<and> isOpen p
         \<and> (\<forall>ps \<in> set tps. \<forall>q \<in> set ps. isOpen q \<longrightarrow> conditionId q \<noteq> conditionId p)
         \<and> length tps = length (USER_ADDRESSES e)
         \<and> (\<exists>ws. length ws = Suc (length (USER_ADDRESSES e))
               \<and> (\<exists>wa. connectDB c w = (None, wa) \<and> createClobClient c wa = (None, ws ! 0))
               \<and> (\<forall>i < length (USER_ADDRESSES e).
                     fetchPositions c (USER_ADDRESSES e ! i) (ws ! i) = (Inr (tps ! i), ws ! Suc i))
               \<and> fetchPositions c (PROXY_WALLET e) (last ws) = (Inr bps, w1))"
proof -
  from main_posted_stale [OF assms(2,3)] assms(1)
  have "p \<in> set (botOnly_reconcile tps bps)" by auto
  then have "p \<in> set bps" "isOpen p" "conditionId p \<notin> traderOpenConditions tps"
    by (simp_all add: botOnly_reconcile_def botOpen_def)
  then have one: "p \<in> set bps \<and> isOpen p
         \<and> (\<forall>ps \<in> set tps. \<forall>q \<in> set ps. isOpen q \<longrightarrow> conditionId q \<noteq> conditionId p)"
    by (auto simp: traderOpenConditions_eq)
  from fetchStage_link [OF assms(1)] obtain wa wb w3 tr1 where
    k: "connectDB c w = (None, wa)" "createClobClient c wa = (None, wb)"
    and fa: "fetchAll c (USER_ADDRESSES e) wb = (Inr tps, tr1, w3)"
    and fb: "fetchPositions c (PROXY_WALLET e) w3 = (Inr bps, w1)"
    by blast
  from fetchAll_link [OF fa] obtain ws where l: "length ws = Suc (length (USER_ADDRESSES e))"
    and h: "ws ! 0 = wb" and la: "last ws = w3" and n: "length tps = length (USER_ADDRESSES e)"
    and f: "\<forall>i < length (USER_ADDRESSES e).
              fetchPositions c (USER_ADDRESSES e ! i) (ws ! i) = (Inr (tps ! i), ws ! Suc i)"
    by blast
  have "\<exists>wa. connectDB c w = (None, wa) \<and> createClobClient c wa = (None, ws ! 0)"
    using k h by auto
  with l f fb la have two: "\<exists>ws. length ws = Suc (length (USER_ADDRESSES e))
               \<and> (\<exists>wa. connectDB c w = (None, wa) \<and> createClobClient c wa = (None, ws ! 0))
               \<and> (\<forall>i < length (USER_ADDRESSES e).
                     fetchPositions c (USER_ADDRESSES e ! i) (ws ! i) = (Inr (tps ! i), ws ! Suc i))
               \<and> fetchPositions c (PROXY_WALLET e) (last ws) = (Inr bps, w1)"
    by blast
  from one n two show ?thesis by blast
qed

lemma ex2_collab:
  "connectDB (exCollab2 tps1 tps2 bps) w = (None, w)"
  "createClobClient (exCollab2 tps1 tps2 bps) w = (None, w)"
  "getMyBalance (exCollab2 tps1 tps2 bps) address w = (Inr 100, w + 1)"
  "postOrder (exCollab2 tps1 tps2 bps) pos trade bal w = (None, w + 1)"
  "closeConnection (exCollab2 tps1 tps2 bps) w = (None, w)"
  "newObjectId (exCollab2 tps1 tps2 bps) w = (w, w + 1)"
  "dateNow (exCollab2 tps1 tps2 bps) w = (1700000000000 + w, w + 1)"
  by (simp_all add: exCollab2_def)

lemma ex2_env: "PROXY_WALLET exEnv2 = ''0xbot''" "USER_ADDRESSES exEnv2 = [''0xtrader'', ''0xtrader2'']"
  by (simp_all add: exEnv2_def)

lemma ex2_fetchStage:
  "fetchStage (exCollab2 tps1 tps2 bps) exEnv2 w =
     (Inr ([tps1, tps2], bps),
      [EvConnectDB, EvCreateClobClient,
       EvFetchData ''https://data-api.polymarket.com/positions?user=0xtrader'',
       EvFetchData ''https://data-api.polymarket.com/positions?user=0xtrader2'',
       EvFetchData ''https://data-api.polymarket.com/positions?user=0xbot''], w + 3)"
  by (simp add: fetchStage_def fetchPositions_def exCollab2_def exEnv2_def DATA_API_BASE_def)

lemma ex2_traderB: "isOpen exTraderB" "conditionId exTraderB = ''0xB''"
  by (simp_all add: isOpen_def orNum_def mkPos_def exTraderB_def)

lemma ex2_botOnly: "botOnly_reconcile [[exTraderA], [exTraderB]] exBots = [exBotC, exBotE]"
  by (simp add: botOnly_reconcile_def botOpen_def traderOpenConditions_def exBots_def
        ex_isOpen ex_conditionId ex2_traderB)

lemma ex2_main:
  "main (exCollab2 [exTraderA] [exTraderB] exBots) exEnv2 100 = (Inr (), exTrace2, 110)"
  by (simp add: main_def ex2_fetchStage ex2_botOnly ex_label ex_size ex_conditionId closeAndReturn_def
        exTrace2_def ex2_collab ex2_env)

text \<open>
  In the second sample the bot's position in \<open>0xB\<close> is held open by the second tracked
  trader only, and it is not exited; \<open>0xC\<close>, which no trader holds, is.
\<close>

theorem C9_held_conditions_never_exited_witness:
  "fetchStage (exCollab2 [exTraderA] [exTraderB] exBots) exEnv2 100 =
     (Inr ([[exTraderA], [exTraderB]], exBots),
      [EvConnectDB, EvCreateClobClient,
       EvFetchData ''https://data-api.polymarket.com/positions?user=0xtrader'',
       EvFetchData ''https://data-api.polymarket.com/positions?user=0xtrader2'',
       EvFetchData ''https://data-api.polymarket.com/positions?user=0xbot''], 103)
   \<and> main (exCollab2 [exTraderA] [exTraderB] exBots) exEnv2 100 = (Inr (), exTrace2, 110)
   \<and> (exBotC, syntheticTrade 104 ''0xbot'' 1700000000105 exBotC) \<in> set (postedOrders exTrace2)
   \<and> exBotC \<in> set exBots \<and> isOpen exBotC
   \<and> USER_ADDRESSES exEnv2 = [''0xtrader'', ''0xtrader2'']
   \<and> length [[exTraderA], [exTraderB]] = length (USER_ADDRESSES exEnv2)
   \<and> isOpen exTraderA \<and> conditionId exTraderA \<noteq> conditionId exBotC
   \<and> isOpen exTraderB \<and> conditionId exTraderB \<noteq> conditionId exBotC
   \<and> conditionId exTraderB = conditionId exBotB
   \<and> map fst (postedOrders exTrace2) = [exBotC, exBotE]"
proof -
  have f: "fetchStage (exCollab2 [exTraderA] [exTraderB] exBots) exEnv2 100 =
     (Inr ([[exTraderA], [exTraderB]], exBots),
      [EvConnectDB, EvCreateClobClient,
       EvFetchData ''https://data-api.polymarket.com/positions?user=0xtrader'',
       EvFetchData ''https://data-api.polymarket.com/positions?user=0xtrader2'',
       EvFetchData ''https://data-api.polymarket.com/positions?user=0xbot''], 103)"
    by (simp add: ex2_fetchStage)
  have i: "(exBotC, syntheticTrade 104 ''0xbot'' 1700000000105 exBotC) \<in> set (postedOrders exTrace2)"
    by (simp add: exTrace2_def)
  have j: "map fst (postedOrders exTrace2) = [exBotC, exBotE]"
    by (simp add: exTrace2_def)
  have o: "isOpen exTraderA" "isOpen exTraderB" "conditionId exTraderB = conditionId exBotB"
    by (simp_all add: ex_isOpen ex2_traderB ex_conditionId)
  note c = C9_held_conditions_never_exited [OF f ex2_main i]
  from c have a: "exBotC \<in> set exBots" "isOpen exBotC"
    "length [[exTraderA], [exTraderB]] = length (USER_ADDRESSES exEnv2)"
    by blast+
  from c have "\<forall>ps \<in> set [[exTraderA], [exTraderB]]. \<forall>q \<in> set ps.
      isOpen q \<longrightarrow> conditionId q \<noteq> conditionId exBotC"
    by blast
  with o have b: "conditionId exTraderA \<noteq> conditionId exBotC" "conditionId exTraderB \<noteq> conditionId exBotC"
    by simp_all
  from f ex2_main i j o a b ex2_env(2) show ?thesis by simp
qed

subsection \<open>The matcher\<close>

lemma keys_objSet: "fst ` set (objSet obj k v) = insert k (fst ` set obj)"
proof (induction obj)
  case Nil
  then show ?case by simp
next
  case (Cons kv obj)
  then show ?case by (cases kv) (simp add: insert_commute insert_absorb)
qed

lemma entries_objSet: "(k, p) \<in> set (objSet obj k' v) \<Longrightarrow> (k, p) \<in> set obj \<or> (k = k' \<and> p = v)"
  by (induction obj) (auto split: if_splits)

lemma keys_foldl_objSet:
  "fst ` set (foldl (\<lambda>obj p. objSet obj (getKey p) p) obj ps) = fst ` set obj \<union> getKey ` set ps"
  by (induction ps arbitrary: obj) (auto simp: keys_objSet)

lemma entries_foldl_objSet:
  "(k, p) \<in> set (foldl (\<lambda>obj p. objSet obj (getKey p) p) obj ps)
     \<Longrightarrow> (k, p) \<in> set obj \<or> (p \<in> set ps \<and> getKey p = k)"
proof (induction ps arbitrary: obj)
  case Nil
  then show ?case by simp
next
  case (Cons q qs)
  from Cons.prems have "(k, p) \<in> set (foldl (\<lambda>obj p. objSet obj (getKey p) p) (objSet obj (getKey q) q) qs)"
    by simp
  from Cons.IH [OF this] show ?case
    using entries_objSet [of k p obj "getKey q" q] by auto
qed

lemma objKeys_byKey: "set (objKeys (byKey ps)) = getKey ` set ps"
  using keys_foldl_objSet [of "[]" ps] by (simp add: objKeys_def byKey_def)

lemma objGet_byKey_None: "objGet (byKey ps) k = None \<longleftrightarrow> k \<notin> getKey ` set ps"
  using objKeys_byKey [of ps] by (simp add: objGet_def objKeys_def map_of_eq_None_iff)

lemma objGet_byKey_Some: "objGet (byKey ps) k = Some p \<Longrightarrow> p \<in> set ps \<and> getKey p = k"
  using entries_foldl_objSet [of k p "[]" ps] by (auto simp: objGet_def byKey_def dest: map_of_SomeD)

lemma matchedPairs_sound:
  assumes "m \<in> set (matchedPairs ts bs)"
  shows "pair_trader m \<in> set (filter isOpen ts) \<and> getKey (pair_trader m) = pair_key m
       \<and> pair_bot m \<in> set (filter isOpen bs) \<and> getKey (pair_bot m) = pair_key m"
proof -
  from assms obtain k t b where "objGet (botByKey bs) k = Some b" "objGet (traderByKey ts) k = Some t"
    and "m = \<lparr> pair_key = k, pair_trader = t, pair_bot = b \<rparr>"
    by (auto simp: matchedPairs_def split: option.splits)
  then show ?thesis
    using objGet_byKey_Some [of "filter isOpen bs" k b] objGet_byKey_Some [of "filter isOpen ts" k t]
    by (simp add: botByKey_def traderByKey_def botPositions_def traderPositions_def)
qed

lemma traderOnly_keys:
  "traderOnly ts bs = filter (\<lambda>p. getKey p \<notin> getKey ` set (filter isOpen bs)) (filter isOpen ts)"
  by (simp add: traderOnly_def botByKey_def objGet_byKey_None traderPositions_def botPositions_def)

lemma botOnly_keys:
  "botOnly ts bs = filter (\<lambda>p. getKey p \<notin> getKey ` set (filter isOpen ts)) (filter isOpen bs)"
  by (simp add: botOnly_def traderByKey_def objGet_byKey_None traderPositions_def botPositions_def)

lemma matchedPairs_disjoint_keys:
  assumes "getKey ` set (filter isOpen ts) \<inter> getKey ` set (filter isOpen bs) = {}"
  shows "matchedPairs ts bs = []"
proof (rule ccontr)
  assume "matchedPairs ts bs \<noteq> []"
  then obtain m where "m \<in> set (matchedPairs ts bs)" by (cases "matchedPairs ts bs") auto
  from matchedPairs_sound [OF this] assms show False by (metis IntI emptyE imageI)
qed

text \<open>
  Claim C5. When no open trader position and open bot position share a key, there is no
  matched pair and the two unmatched lists are the open positions of each side. In general
  the keys of each dictionary are the keys of the open positions of its side,
  \<^verbatim>\<open>traderOnly\<close> is the list of open trader positions whose key is not a key of the bot
  dictionary, \<^verbatim>\<open>botOnly\<close> is the list of open bot positions whose key is not a key of the
  trader dictionary, and no position of a matched pair, nor its key, occurs in either list.
\<close>

theorem C5_matcher_partition:
  "(getKey ` set (filter isOpen ts) \<inter> getKey ` set (filter isOpen bs) = {} \<longrightarrow>
      matchedPairs ts bs = [] \<and> traderOnly ts bs = filter isOpen ts \<and> botOnly ts bs = filter isOpen bs)
   \<and> set (objKeys (botByKey bs)) = getKey ` set (filter isOpen bs)
   \<and> set (objKeys (traderByKey ts)) = getKey ` set (filter isOpen ts)
   \<and> traderOnly ts bs = filter (\<lambda>p. getKey p \<notin> set (objKeys (botByKey bs))) (filter isOpen ts)
   \<and> botOnly ts bs = filter (\<lambda>p. getKey p \<notin> set (objKeys (traderByKey ts))) (filter isOpen bs)
   \<and> (\<forall>m \<in> set (matchedPairs ts bs).
         pair_trader m \<notin> set (traderOnly ts bs) \<and> pair_bot m \<notin> set (botOnly ts bs)
         \<and> (\<forall>p \<in> set (traderOnly ts bs) \<union> set (botOnly ts bs). getKey p \<noteq> pair_key m))"
proof -
  have kb: "set (objKeys (botByKey bs)) = getKey ` set (filter isOpen bs)"
    by (simp add: botByKey_def botPositions_def objKeys_byKey)
  have kt: "set (objKeys (traderByKey ts)) = getKey ` set (filter isOpen ts)"
    by (simp add: traderByKey_def traderPositions_def objKeys_byKey)
  have a: "getKey ` set (filter isOpen ts) \<inter> getKey ` set (filter isOpen bs) = {} \<longrightarrow>
      matchedPairs ts bs = [] \<and> traderOnly ts bs = filter isOpen ts \<and> botOnly ts bs = filter isOpen bs"
  proof
    assume d: "getKey ` set (filter isOpen ts) \<inter> getKey ` set (filter isOpen bs) = {}"
    have "traderOnly ts bs = filter isOpen ts"
      unfolding traderOnly_keys using d by (intro filter_True) blast
    moreover have "botOnly ts bs = filter isOpen bs"
      unfolding botOnly_keys using d by (intro filter_True) blast
    ultimately show "matchedPairs ts bs = [] \<and> traderOnly ts bs = filter isOpen ts
                     \<and> botOnly ts bs = filter isOpen bs"
      using matchedPairs_disjoint_keys [OF d] by simp
  qed
  have t: "traderOnly ts bs = filter (\<lambda>p. getKey p \<notin> set (objKeys (botByKey bs))) (filter isOpen ts)"
    by (simp only: kb traderOnly_keys)
  have b: "botOnly ts bs = filter (\<lambda>p. getKey p \<notin> set (objKeys (traderByKey ts))) (filter isOpen bs)"
    by (simp only: kt botOnly_keys)
  have m: "\<forall>m \<in> set (matchedPairs ts bs).
         pair_trader m \<notin> set (traderOnly ts bs) \<and> pair_bot m \<notin> set (botOnly ts bs)
         \<and> (\<forall>p \<in> set (traderOnly ts bs) \<union> set (botOnly ts bs). getKey p \<noteq> pair_key m)"
  proof
    fix m assume "m \<in> set (matchedPairs ts bs)"
    from matchedPairs_sound [OF this]
    show "pair_trader m \<notin> set (traderOnly ts bs) \<and> pair_bot m \<notin> set (botOnly ts bs)
         \<and> (\<forall>p \<in> set (traderOnly ts bs) \<union> set (botOnly ts bs). getKey p \<noteq> pair_key m)"
      unfolding traderOnly_keys botOnly_keys by (auto simp: image_iff)
  qed
  from a kb kt t b m show ?thesis by blast
qed

lemma ex_getKey:
  "getKey exTraderA = ''Rain|Yes''" "getKey exBotA = ''Rain|Yes''" "getKey exBotB = ''Snow|Yes''"
  "getKey exBotC = ''Wind|Yes''" "getKey exBotD = ''Hail|Yes''" "getKey exBotE = ''Fog|Yes''"
  by (simp_all add: getKey_def toStr_def mkPos_def exTraderA_def exBotA_def exBotB_def exBotC_def
        exBotD_def exBotE_def)

lemma ex_matchedPairs:
  "matchedPairs [exTraderA] exBots =
     [\<lparr> pair_key = ''Rain|Yes'', pair_trader = exTraderA, pair_bot = exBotA \<rparr>]"
  by (simp add: matchedPairs_def traderByKey_def botByKey_def byKey_def traderPositions_def
        botPositions_def objGet_def objKeys_def exBots_def ex_isOpen ex_getKey)

text \<open>
  A trader and a bot in different markets, and the sample portfolio, where the market
  \<open>Rain\<close> is matched.
\<close>

theorem C5_matcher_partition_witness:
  "getKey ` set (filter isOpen [exTraderA]) \<inter> getKey ` set (filter isOpen [exBotB, exBotD]) = {}
   \<and> matchedPairs [exTraderA] [exBotB, exBotD] = []
   \<and> traderOnly [exTraderA] [exBotB, exBotD] = [exTraderA]
   \<and> botOnly [exTraderA] [exBotB, exBotD] = [exBotB]
   \<and> \<lparr> pair_key = ''Rain|Yes'', pair_trader = exTraderA, pair_bot = exBotA \<rparr>
        \<in> set (matchedPairs [exTraderA] exBots)
   \<and> exTraderA \<notin> set (traderOnly [exTraderA] exBots)
   \<and> exBotA \<notin> set (botOnly [exTraderA] exBots)"
proof -
  have d: "getKey ` set (filter isOpen [exTraderA]) \<inter> getKey ` set (filter isOpen [exBotB, exBotD]) = {}"
    by (simp add: ex_isOpen ex_getKey)
  have m: "\<lparr> pair_key = ''Rain|Yes'', pair_trader = exTraderA, pair_bot = exBotA \<rparr>
        \<in> set (matchedPairs [exTraderA] exBots)"
    by (simp add: ex_matchedPairs)
  from C5_matcher_partition [of "[exTraderA]" "[exBotB, exBotD]"] d
  have one: "matchedPairs [exTraderA] [exBotB, exBotD] = []
     \<and> traderOnly [exTraderA] [exBotB, exBotD] = [exTraderA]
     \<and> botOnly [exTraderA] [exBotB, exBotD] = [exBotB]"
    by (simp add: ex_isOpen)
  from C5_matcher_partition [of "[exTraderA]" exBots] m
  have two: "exTraderA \<notin> set (traderOnly [exTraderA] exBots) \<and> exBotA \<notin> set (botOnly [exTraderA] exBots)"
    by fastforce
  from d m one two show ?thesis by simp
qed

lemma closed_not_open:
  "currentValue p = None \<or> (\<exists>v. currentValue p = Some v \<and> v \<le> 0.01) \<Longrightarrow> \<not> isOpen p"
  by (auto simp: isOpen_def orNum_def)

lemma traderOpenConditions_drop:
  "\<not> isOpen p \<Longrightarrow>
     traderOpenConditions (tps1 @ (ps1 @ p # ps2) # tps2) = traderOpenConditions (tps1 @ (ps1 @ ps2) # tps2)"
  by (simp add: traderOpenConditions_def)

text \<open>
  Claim C6. A position whose \<^verbatim>\<open>currentValue\<close> is missing or at most \<open>0.01\<close> is not open,
  whatever its size. It occurs in no matched pair and in neither unmatched list, and the
  matcher gives the same result without it, on either side. It is not in the stale set of
  the reconciliation script, which is the same without it among the bot's or among a
  trader's positions, and the script never posts an order for it.
\<close>

theorem C6_closed_positions_excluded:
  assumes "currentValue p = None \<or> (\<exists>v. currentValue p = Some v \<and> v \<le> 0.01)"
  shows "\<not> isOpen p
    \<and> p \<notin> set (traderOnly ts bs) \<and> p \<notin> set (botOnly ts bs)
    \<and> (\<forall>m \<in> set (matchedPairs ts bs). pair_trader m \<noteq> p \<and> pair_bot m \<noteq> p)
    \<and> matchedPairs (ts1 @ p # ts2) bs = matchedPairs (ts1 @ ts2) bs
    \<and> traderOnly (ts1 @ p # ts2) bs = traderOnly (ts1 @ ts2) bs
    \<and> botOnly (ts1 @ p # ts2) bs = botOnly (ts1 @ ts2) bs
    \<and> matchedPairs ts (bs1 @ p # bs2) = matchedPairs ts (bs1 @ bs2)
    \<and> traderOnly ts (bs1 @ p # bs2) = traderOnly ts (bs1 @ bs2)
    \<and> botOnly ts (bs1 @ p # bs2) = botOnly ts (bs1 @ bs2)
    \<and> p \<notin> set (botOnly_reconcile tps bps)
    \<and> botOnly_reconcile tps (bs1 @ p # bs2) = botOnly_reconcile tps (bs1 @ bs2)
    \<and> botOnly_reconcile (tps1 @ (ps1 @ p # ps2) # tps2) bps
        = botOnly_reconcile (tps1 @ (ps1 @ ps2) # tps2) bps
    \<and> p \<notin> fst ` set (postedOrders (fst (snd (main c e w))))"
proof -
  have n: "\<not> isOpen p" using assms by (rule closed_not_open)
  have a: "p \<notin> set (traderOnly ts bs)" "p \<notin> set (botOnly ts bs)"
    using n by (simp_all add: traderOnly_def botOnly_def traderPositions_def botPositions_def)
  have b: "\<forall>m \<in> set (matchedPairs ts bs). pair_trader m \<noteq> p \<and> pair_bot m \<noteq> p"
    using matchedPairs_sound [of _ ts bs] n by auto
  have tp: "traderPositions (ts1 @ p # ts2) = traderPositions (ts1 @ ts2)"
    and bp: "botPositions (bs1 @ p # bs2) = botPositions (bs1 @ bs2)"
    using n by (simp_all add: traderPositions_def botPositions_def)
  have d: "matchedPairs (ts1 @ p # ts2) bs = matchedPairs (ts1 @ ts2) bs"
      "traderOnly (ts1 @ p # ts2) bs = traderOnly (ts1 @ ts2) bs"
      "botOnly (ts1 @ p # ts2) bs = botOnly (ts1 @ ts2) bs"
    by (simp_all only: matchedPairs_def traderOnly_def botOnly_def traderByKey_def tp)
  have f: "matchedPairs ts (bs1 @ p # bs2) = matchedPairs ts (bs1 @ bs2)"
      "traderOnly ts (bs1 @ p # bs2) = traderOnly ts (bs1 @ bs2)"
      "botOnly ts (bs1 @ p # bs2) = botOnly ts (bs1 @ bs2)"
    by (simp_all only: matchedPairs_def traderOnly_def botOnly_def botByKey_def bp)
  have g: "p \<notin> set (botOnly_reconcile tps bps)"
      "botOnly_reconcile tps (bs1 @ p # bs2) = botOnly_reconcile tps (bs1 @ bs2)"
    using n by (simp_all add: botOnly_reconcile_def botOpen_def)
  have h: "botOnly_reconcile (tps1 @ (ps1 @ p # ps2) # tps2) bps
        = botOnly_reconcile (tps1 @ (ps1 @ ps2) # tps2) bps"
    by (simp only: botOnly_reconcile_def traderOpenConditions_drop [OF n])
  have i: "p \<notin> fst ` set (postedOrders (fst (snd (main c e w))))"
  proof
    assume "p \<in> fst ` set (postedOrders (fst (snd (main c e w))))"
    then obtain t where m: "(p, t) \<in> set (postedOrders (fst (snd (main c e w))))" by force
    have "main c e w = (fst (main c e w), fst (snd (main c e w)), snd (snd (main c e w)))" by simp
    from main_posted_stale [OF this m] have "isOpen p"
      by (auto simp: botOnly_reconcile_def botOpen_def)
    with n show False ..
  qed
  from n a b d f g h i show ?thesis by simp
qed

text \<open>
  The position \<open>0xD\<close> of the sample portfolio has size \<open>50\<close> and value \<open>0\<close>.
\<close>

theorem C6_closed_positions_excluded_witness:
  "currentValue exBotD = Some 0 \<and> (0 :: real) \<le> 0.01
   \<and> size_pos exBotD = Some 50
   \<and> \<not> isOpen exBotD
   \<and> exBotD \<notin> set (botOnly [exTraderA] exBots)
   \<and> \<lparr> pair_key = ''Rain|Yes'', pair_trader = exTraderA, pair_bot = exBotA \<rparr>
        \<in> set (matchedPairs [exTraderA] exBots)
   \<and> exBotA \<noteq> exBotD
   \<and> botOnly_reconcile [[exTraderA]] exBots = botOnly_reconcile [[exTraderA]] [exBotA, exBotB, exBotC, exBotE]
   \<and> exBotD \<notin> fst ` set (postedOrders (fst (snd (main (exCollab [exTraderA] exBots [''0xC'']) exEnv 100))))"
proof -
  have v: "currentValue exBotD = Some 0"
    by (simp add: exBotD_def mkPos_def)
  then have h: "currentValue exBotD = None \<or> (\<exists>v. currentValue exBotD = Some v \<and> v \<le> 0.01)"
    by simp
  have s: "size_pos exBotD = Some 50"
    by (simp add: exBotD_def mkPos_def)
  have m: "\<lparr> pair_key = ''Rain|Yes'', pair_trader = exTraderA, pair_bot = exBotA \<rparr>
        \<in> set (matchedPairs [exTraderA] exBots)"
    by (simp add: ex_matchedPairs)
  from C6_closed_positions_excluded [OF h, of "[exTraderA]" exBots "[]" "[]" "[exBotA, exBotB, exBotC]" "[exBotE]"
      "[[exTraderA]]" exBots "[]" "[]" "[]" "[]" "exCollab [exTraderA] exBots [''0xC'']" exEnv 100] m
  have "\<not> isOpen exBotD \<and> exBotD \<notin> set (botOnly [exTraderA] exBots) \<and> exBotA \<noteq> exBotD
    \<and> botOnly_reconcile [[exTraderA]] exBots = botOnly_reconcile [[exTraderA]] [exBotA, exBotB, exBotC, exBotE]
    \<and> exBotD \<notin> fst ` set (postedOrders (fst (snd (main (exCollab [exTraderA] exBots [''0xC'']) exEnv 100))))"
    by (fastforce simp: exBots_def)
  with v s m show ?thesis by simp
qed

subsection \<open>Slippage statistics\<close>

text \<open>
  When every matched trader entry price is positive, the average shown is the mean of the
  figures of the rows.
\<close>

lemma slippagePct_positive:
  assumes "avgPrice (pair_trader pair) = Some v" and "v > 0"
  shows "slippagePct pair =
           jsmul (jsdiv (jssub (num (avgPrice (pair_bot pair))) (num (avgPrice (pair_trader pair))))
                        (num (avgPrice (pair_trader pair))))
                 (Fin 100)"
  using assms by (simp add: slippagePct_def num_def)

lemma avgSlippagePct_positive:
  assumes "pairs \<noteq> []"
    and "\<forall>pair \<in> set pairs. \<exists>v. avgPrice (pair_trader pair) = Some v \<and> v > 0"
  shows "avgSlippagePct pairs = meanSlippagePct pairs"
proof -
  have eq: "map slippagePct pairs =
        map (\<lambda>pair. jsmul (jsdiv (jssub (num (avgPrice (pair_bot pair))) (num (avgPrice (pair_trader pair))))
                        (num (avgPrice (pair_trader pair)))) (Fin 100)) pairs"
  proof (rule map_cong [OF refl])
    fix pair assume "pair \<in> set pairs"
    with assms(2) obtain v where "avgPrice (pair_trader pair) = Some v" "v > 0" by blast
    then show "slippagePct pair =
        jsmul (jsdiv (jssub (num (avgPrice (pair_bot pair))) (num (avgPrice (pair_trader pair))))
                        (num (avgPrice (pair_trader pair)))) (Fin 100)"
      by (rule slippagePct_positive)
  qed
  show ?thesis
    unfolding avgSlippagePct_def meanSlippagePct_def eq foldl_map
    using assms(1) by simp
qed

lemma ex_isOpenZ: "isOpen exTraderZ" "isOpen exBotZ"
  by (simp_all add: isOpen_def orNum_def mkPos_def exTraderZ_def exBotZ_def)

lemma ex_getKeyZ: "getKey exTraderZ = ''Gift|Yes''" "getKey exBotZ = ''Gift|Yes''"
  by (simp_all add: getKey_def toStr_def mkPos_def exTraderZ_def exBotZ_def)

lemma ex_avgPriceZ: "avgPrice exTraderZ = Some 0" "avgPrice exBotZ = Some 0.42"
  by (simp_all add: mkPos_def exTraderZ_def exBotZ_def)

text \<open>
  Claim C7 says that a pair whose trader entry price is \<open>0\<close> is reported with slippage
  \<open>0\<close> and that the average shown is the unweighted mean of the figures of the pairs. The
  row of a pair guards the division with \<^verbatim>\<open>t.avgPrice > 0\<close>; the average does not. For one
  matched pair with trader entry price \<open>0\<close> and bot entry price \<open>0.42\<close> the row shows \<open>0\<close>,
  the mean of the rows is \<open>0\<close>, and the average shown is \<^verbatim>\<open>Infinity\<close>.
\<close>

theorem C7_average_of_zero_entry_price:
  "matchedPairs [exTraderZ] [exBotZ] =
     [\<lparr> pair_key = ''Gift|Yes'', pair_trader = exTraderZ, pair_bot = exBotZ \<rparr>]
   \<and> slippagePct \<lparr> pair_key = ''Gift|Yes'', pair_trader = exTraderZ, pair_bot = exBotZ \<rparr> = Fin 0
   \<and> meanSlippagePct (matchedPairs [exTraderZ] [exBotZ]) = Fin 0
   \<and> avgSlippagePct (matchedPairs [exTraderZ] [exBotZ]) = PosInf"
proof -
  have m: "matchedPairs [exTraderZ] [exBotZ] =
     [\<lparr> pair_key = ''Gift|Yes'', pair_trader = exTraderZ, pair_bot = exBotZ \<rparr>]"
    by (simp add: matchedPairs_def traderByKey_def botByKey_def byKey_def traderPositions_def
          botPositions_def objGet_def objKeys_def ex_isOpenZ ex_getKeyZ)
  have s: "slippagePct \<lparr> pair_key = ''Gift|Yes'', pair_trader = exTraderZ, pair_bot = exBotZ \<rparr> = Fin 0"
    by (simp add: slippagePct_def num_def ex_avgPriceZ)
  have a: "meanSlippagePct (matchedPairs [exTraderZ] [exBotZ]) = Fin 0"
    by (simp add: m meanSlippagePct_def s)
  have b: "avgSlippagePct (matchedPairs [exTraderZ] [exBotZ]) = PosInf"
    by (simp add: m avgSlippagePct_def num_def ex_avgPriceZ jssub_def infOfSign_def)
  from m s a b show ?thesis by simp
qed

subsection \<open>The guard\<close>

text \<open>
  Claim C4. With the action \<^verbatim>\<open>skip\<close>, an attempt whose quote violates the tolerance or
  the depth is decided \<open>Abort\<close>, and the loop ends there: its events are the quote and that
  one decision, with no \<open>RetryAfterWait\<close>, no wait and no submission, and the world is the
  one left by fetching the quote.
\<close>

theorem C4_skip_aborts_at_once:
  assumes "action cfg = Skip" and "fetchQuote w = (q, w1)"
    and "toleranceViolated cfg sd referencePrice q \<or> depthViolated cfg sd q"
  shows "slippageGuard cfg sd referencePrice q attempt = Abort (violationReason cfg sd referencePrice q)
       \<and> executionRetryLoop cfg sd referencePrice fetchQuote submit attempt w =
           (Aborted (violationReason cfg sd referencePrice q),
            [XFetchQuote, XDecision (Abort (violationReason cfg sd referencePrice q))], w1)"
proof -
  have g: "slippageGuard cfg sd referencePrice q attempt = Abort (violationReason cfg sd referencePrice q)"
    using assms(1,3) by (auto simp: slippageGuard_def)
  have "executionRetryLoop cfg sd referencePrice fetchQuote submit attempt w =
           (Aborted (violationReason cfg sd referencePrice q),
            [XFetchQuote, XDecision (Abort (violationReason cfg sd referencePrice q))], w1)"
    by (subst executionRetryLoop.simps) (simp add: assms(2) g)
  with g show ?thesis by simp
qed

text \<open>
  A sell at reference price \<open>0.5\<close> against a best bid of \<open>0.45\<close>, with a tolerance of one
  percent.
\<close>

theorem C4_skip_aborts_at_once_witness:
  "action exSkipConfig = Skip
   \<and> exFetchQuote 100 = (exQuote, 101)
   \<and> toleranceViolated exSkipConfig SELL 0.5 exQuote
   \<and> executionRetryLoop exSkipConfig SELL 0.5 exFetchQuote exSubmit 0 100 =
       (Aborted ''slippage tolerance exceeded'',
        [XFetchQuote, XDecision (Abort ''slippage tolerance exceeded'')], 101)"
proof -
  have a: "action exSkipConfig = Skip" by (simp add: exSkipConfig_def)
  have q: "exFetchQuote 100 = (exQuote, 101)" by (simp add: exFetchQuote_def)
  have v: "toleranceViolated exSkipConfig SELL 0.5 exQuote"
    by (simp add: toleranceViolated_def adverseDrift_def drift_def livePrice_def exSkipConfig_def
          exQuote_def)
  have r: "violationReason exSkipConfig SELL 0.5 exQuote = ''slippage tolerance exceeded''"
    using v by (simp add: violationReason_def)
  note c = C4_skip_aborts_at_once [of exSkipConfig exFetchQuote 100 exQuote 101 SELL "0.5" 0 exSubmit,
      OF a q disjI1 [OF v]]
  have e: "executionRetryLoop exSkipConfig SELL 0.5 exFetchQuote exSubmit 0 100 =
       (Aborted ''slippage tolerance exceeded'',
        [XFetchQuote, XDecision (Abort ''slippage tolerance exceeded'')], 101)"
    using c [THEN conjunct2] unfolding r .
  show ?thesis by (intro conjI a q v e)
qed

end
